theory Spec2Isabelle
  imports Complex_Main "HOL-Library.Sublist"
begin

section \<open>JavaScript strings\<close>

text \<open>
  A JavaScript string is a sequence of UTF-16 code units. The development works over
  the code units U+0000 .. U+00FF, one \<^typ>\<open>char\<close> each, so \<open>length\<close> is the
  \<open>.length\<close> of the source and every ASCII text is covered.
\<close>

definition code :: "char \<Rightarrow> nat" where
  "code c = of_char c"

text \<open>\<open>String.prototype.toLowerCase\<close>, per code unit: A-Z and the Latin-1 capitals.\<close>

definition lowerChar :: "char \<Rightarrow> char" where
  "lowerChar c =
     (let n = code c in
      if 65 \<le> n \<and> n \<le> 90 then char_of (n + 32)
      else if 192 \<le> n \<and> n \<le> 222 \<and> n \<noteq> 215 then char_of (n + 32)
      else c)"

definition toLowerCase :: "string \<Rightarrow> string" where
  "toLowerCase s = map lowerChar s"

text \<open>
  The \<open>Canonicalize\<close> operation of a regular expression with the \<open>i\<close> flag: the
  upper-case form of a code unit, unless that would turn a non-ASCII unit into an ASCII one.
\<close>

definition canonicalize :: "char \<Rightarrow> char" where
  "canonicalize c =
     (let n = code c in
      if 97 \<le> n \<and> n \<le> 122 then char_of (n - 32)
      else if 224 \<le> n \<and> n \<le> 254 \<and> n \<noteq> 247 then char_of (n - 32)
      else c)"

text \<open>White space as \<open>\s\<close> and \<open>trim\<close> see it: TAB, LF, VT, FF, CR, SP, NBSP.\<close>

definition isSpace :: "char \<Rightarrow> bool" where
  "isSpace c = (let n = code c in (9 \<le> n \<and> n \<le> 13) \<or> n = 32 \<or> n = 160)"

definition isDigit :: "char \<Rightarrow> bool" where
  "isDigit c = (let n = code c in 48 \<le> n \<and> n \<le> 57)"

text \<open>The class \<open>\w\<close>: letters, digits and the underscore.\<close>

definition isWord :: "char \<Rightarrow> bool" where
  "isWord c =
     (let n = code c in
      (48 \<le> n \<and> n \<le> 57) \<or> (65 \<le> n \<and> n \<le> 90) \<or> (97 \<le> n \<and> n \<le> 122) \<or> n = 95)"

text \<open>Line terminators, which \<open>.\<close> does not match: LF and CR.\<close>

definition isLineTerminator :: "char \<Rightarrow> bool" where
  "isLineTerminator c = (let n = code c in n = 10 \<or> n = 13)"

subsection \<open>The character functions on the bits of a character\<close>

text \<open>
  The same functions, computed from the eight bits of the character (least significant
  first) without arithmetic: these equations are what evaluation uses.
\<close>

lemma lowerChar_code [code]:
  "lowerChar (Char b0 b1 b2 b3 b4 b5 b6 b7) =
     (if \<not> b7 \<and> b6 \<and> \<not> b5 \<and> (b0 \<or> b1 \<or> b2 \<or> b3 \<or> b4) \<and> \<not> (b4 \<and> b3 \<and> (b2 \<or> (b1 \<and> b0)))
      then Char b0 b1 b2 b3 b4 True b6 b7
      else if b7 \<and> b6 \<and> \<not> b5 \<and> \<not> (b4 \<and> b2 \<and> b1 \<and> b0)
      then Char b0 b1 b2 b3 b4 True b6 b7
      else Char b0 b1 b2 b3 b4 b5 b6 b7)"
  by (cases b0; cases b1; cases b2; cases b3; cases b4; cases b5; cases b6; cases b7;
      simp add: lowerChar_def code_def Let_def char_of_def bit_Suc_0_iff)

lemma canonicalize_code [code]:
  "canonicalize (Char b0 b1 b2 b3 b4 b5 b6 b7) =
     (if \<not> b7 \<and> b6 \<and> b5 \<and> (b0 \<or> b1 \<or> b2 \<or> b3 \<or> b4) \<and> \<not> (b4 \<and> b3 \<and> (b2 \<or> (b1 \<and> b0)))
      then Char b0 b1 b2 b3 b4 False b6 b7
      else if b7 \<and> b6 \<and> b5 \<and> \<not> (b4 \<and> b2 \<and> b1 \<and> b0)
      then Char b0 b1 b2 b3 b4 False b6 b7
      else Char b0 b1 b2 b3 b4 b5 b6 b7)"
  by (cases b0; cases b1; cases b2; cases b3; cases b4; cases b5; cases b6; cases b7;
      simp add: canonicalize_def code_def Let_def char_of_def bit_Suc_0_iff)

lemma isSpace_code [code]:
  "isSpace (Char b0 b1 b2 b3 b4 b5 b6 b7) =
     ((\<not> b7 \<and> \<not> b6 \<and> \<not> b5 \<and> \<not> b4 \<and> b3 \<and> \<not> (b2 \<and> b1) \<and> (b2 \<or> b1 \<or> b0)) \<or>
      (\<not> b6 \<and> b5 \<and> \<not> b4 \<and> \<not> b3 \<and> \<not> b2 \<and> \<not> b1 \<and> \<not> b0))"
  by (cases b0; cases b1; cases b2; cases b3; cases b4; cases b5; cases b6; cases b7;
      simp add: isSpace_def code_def Let_def)

lemma isDigit_code [code]:
  "isDigit (Char b0 b1 b2 b3 b4 b5 b6 b7) =
     (\<not> b7 \<and> \<not> b6 \<and> b5 \<and> b4 \<and> \<not> (b3 \<and> (b2 \<or> b1)))"
  by (cases b0; cases b1; cases b2; cases b3; cases b4; cases b5; cases b6; cases b7;
      simp add: isDigit_def code_def Let_def)

lemma isWord_code [code]:
  "isWord (Char b0 b1 b2 b3 b4 b5 b6 b7) =
     ((\<not> b7 \<and> \<not> b6 \<and> b5 \<and> b4 \<and> \<not> (b3 \<and> (b2 \<or> b1))) \<or>
      (\<not> b7 \<and> b6 \<and> (b0 \<or> b1 \<or> b2 \<or> b3 \<or> b4) \<and> \<not> (b4 \<and> b3 \<and> (b2 \<or> (b1 \<and> b0)))) \<or>
      (\<not> b7 \<and> b6 \<and> \<not> b5 \<and> b4 \<and> b3 \<and> b2 \<and> b1 \<and> b0))"
  by (cases b0; cases b1; cases b2; cases b3; cases b4; cases b5; cases b6; cases b7;
      simp add: isWord_def code_def Let_def)

lemma isLineTerminator_code [code]:
  "isLineTerminator (Char b0 b1 b2 b3 b4 b5 b6 b7) =
     (\<not> b7 \<and> \<not> b6 \<and> \<not> b5 \<and> \<not> b4 \<and> b3 \<and> ((\<not> b2 \<and> b1 \<and> \<not> b0) \<or> (b2 \<and> \<not> b1 \<and> b0)))"
  by (cases b0; cases b1; cases b2; cases b3; cases b4; cases b5; cases b6; cases b7;
      simp add: isLineTerminator_def code_def Let_def)

definition trimStart :: "string \<Rightarrow> string" where
  "trimStart s = dropWhile isSpace s"

definition trimEnd :: "string \<Rightarrow> string" where
  "trimEnd s = rev (dropWhile isSpace (rev s))"

definition trim :: "string \<Rightarrow> string" where
  "trim s = trimEnd (trimStart s)"

fun startsWith :: "string \<Rightarrow> string \<Rightarrow> bool" where
  "startsWith s [] = True"
| "startsWith [] (p # ps) = False"
| "startsWith (c # cs) (p # ps) = (c = p \<and> startsWith cs ps)"

definition endsWith :: "string \<Rightarrow> string \<Rightarrow> bool" where
  "endsWith s p = startsWith (rev s) (rev p)"

text \<open>\<open>s.includes(p)\<close>: \<open>p\<close> occurs in \<open>s\<close> at some position.\<close>

fun includesStr :: "string \<Rightarrow> string \<Rightarrow> bool" where
  "includesStr [] p = (p = [])"
| "includesStr (c # cs) p = (startsWith (c # cs) p \<or> includesStr cs p)"

section \<open>Regular expressions\<close>

text \<open>
  The regular expressions of the source are kept as syntax trees and run by a
  backtracking matcher that follows the ECMAScript semantics: alternatives are tried
  left to right, a greedy quantifier tries one more iteration before it tries to go on,
  a lazy one the other way round, an iteration that consumes nothing is rejected, and
  the search tries the start positions from left to right.
\<close>

datatype citem = Space | Digit | WordChar | Range char char | One char | NotSpace

datatype rx =
    Eps
  | Lit string
  | Cls "citem list"
  | Dot
  | Seq rx rx
  | Alt rx rx
  | Star rx
  | Lazy rx
  | Grp rx
  | WordB
  | Bol
  | Eol

text \<open>
  \<open>Lit\<close> is a run of literal characters, \<open>Cls\<close> a character class (the union of its
  items), \<open>Dot\<close> is \<open>.\<close>, \<open>Star\<close> and \<open>Lazy\<close> are \<open>*\<close> and \<open>*?\<close>, \<open>Grp\<close>
  is the one capturing group whose text the caller reads (\<open>m[1]\<close>), \<open>WordB\<close> is
  \<open>\b\<close>, \<open>Bol\<close> and \<open>Eol\<close> are \<open>^\<close> and \<open>$\<close> (no \<open>m\<close> flag is used).
  The other groups of the source capture nothing that is read, and are plain alternatives.
\<close>

definition Plus :: "rx \<Rightarrow> rx" where
  "Plus r = Seq r (Star r)"

definition LazyPlus :: "rx \<Rightarrow> rx" where
  "LazyPlus r = Seq r (Lazy r)"

definition Opt :: "rx \<Rightarrow> rx" where
  "Opt r = Alt r Eps"

fun seqs :: "rx list \<Rightarrow> rx" where
  "seqs [] = Eps"
| "seqs [r] = r"
| "seqs (r # rs) = Seq r (seqs rs)"

fun alts :: "rx list \<Rightarrow> rx" where
  "alts [] = Eps"
| "alts [r] = r"
| "alts (r # rs) = Alt r (alts rs)"

definition words :: "string list \<Rightarrow> rx" where
  "words ws = alts (map Lit ws)"

text \<open>\<open>[\s\S]\<close>, any code unit at all.\<close>

definition AnyChar :: rx where
  "AnyChar = Cls [Space, NotSpace]"

fun inItem :: "char \<Rightarrow> citem \<Rightarrow> bool" where
  "inItem c Space = isSpace c"
| "inItem c NotSpace = (\<not> isSpace c)"
| "inItem c Digit = isDigit c"
| "inItem c WordChar = isWord c"
| "inItem c (Range a b) = (code a \<le> code c \<and> code c \<le> code b)"
| "inItem c (One a) = (c = a)"

text \<open>
  The matcher's state: the text before the current position (reversed), the text from
  it on, and what the capturing group holds.
\<close>

record mstate =
  prev :: string
  rest :: string
  cap :: "string option"

type_synonym cont = "mstate \<Rightarrow> mstate option"

definition sameChar :: "bool \<Rightarrow> char \<Rightarrow> char \<Rightarrow> bool" where
  "sameChar ic p c = (if ic then canonicalize p = canonicalize c else p = c)"

fun matchLit :: "bool \<Rightarrow> string \<Rightarrow> mstate \<Rightarrow> mstate option" where
  "matchLit ic [] s = Some s"
| "matchLit ic (p # ps) s =
     (case rest s of
        [] \<Rightarrow> None
      | c # cs \<Rightarrow>
          if sameChar ic p c then matchLit ic ps (s\<lparr>prev := c # prev s, rest := cs\<rparr>)
          else None)"

definition step1 :: "(char \<Rightarrow> bool) \<Rightarrow> cont \<Rightarrow> mstate \<Rightarrow> mstate option" where
  "step1 P k s =
     (case rest s of
        [] \<Rightarrow> None
      | c # cs \<Rightarrow> if P c then k (s\<lparr>prev := c # prev s, rest := cs\<rparr>) else None)"

definition atWordBoundary :: "mstate \<Rightarrow> bool" where
  "atWordBoundary s =
     ((case prev s of [] \<Rightarrow> False | c # _ \<Rightarrow> isWord c)
        \<noteq> (case rest s of [] \<Rightarrow> False | c # _ \<Rightarrow> isWord c))"

text \<open>
  The quantifiers. An iteration must consume at least one character, so the number of
  iterations is bounded by the length of the remaining text, which is the count given
  at the call.
\<close>

primrec greedy :: "nat \<Rightarrow> (cont \<Rightarrow> mstate \<Rightarrow> mstate option) \<Rightarrow> cont \<Rightarrow> mstate \<Rightarrow> mstate option" where
  "greedy 0 f k s = k s"
| "greedy (Suc n) f k s =
     (case f (\<lambda>s'. if length (rest s') < length (rest s) then greedy n f k s' else None) s of
        Some r \<Rightarrow> Some r
      | None \<Rightarrow> k s)"

primrec lazy :: "nat \<Rightarrow> (cont \<Rightarrow> mstate \<Rightarrow> mstate option) \<Rightarrow> cont \<Rightarrow> mstate \<Rightarrow> mstate option" where
  "lazy 0 f k s = k s"
| "lazy (Suc n) f k s =
     (case k s of
        Some r \<Rightarrow> Some r
      | None \<Rightarrow> f (\<lambda>s'. if length (rest s') < length (rest s) then lazy n f k s' else None) s)"

primrec m :: "rx \<Rightarrow> bool \<Rightarrow> cont \<Rightarrow> mstate \<Rightarrow> mstate option" where
  "m Eps ic k s = k s"
| "m (Lit w) ic k s = (case matchLit ic w s of None \<Rightarrow> None | Some s' \<Rightarrow> k s')"
| "m (Cls is) ic k s = step1 (\<lambda>c. list_ex (inItem c) is) k s"
| "m Dot ic k s = step1 (\<lambda>c. \<not> isLineTerminator c) k s"
| "m (Seq a b) ic k s = m a ic (m b ic k) s"
| "m (Alt a b) ic k s = (case m a ic k s of Some r \<Rightarrow> Some r | None \<Rightarrow> m b ic k s)"
| "m (Star a) ic k s = greedy (length (rest s)) (m a ic) k s"
| "m (Lazy a) ic k s = lazy (length (rest s)) (m a ic) k s"
| "m (Grp a) ic k s =
     m a ic (\<lambda>s'. k (s'\<lparr>cap := Some (take (length (rest s) - length (rest s')) (rest s))\<rparr>)) s"
| "m WordB ic k s = (if atWordBoundary s then k s else None)"
| "m Bol ic k s = (if prev s = [] then k s else None)"
| "m Eol ic k s = (if rest s = [] then k s else None)"

text \<open>The search for the leftmost match, from the position the state is at.\<close>

fun scan :: "rx \<Rightarrow> bool \<Rightarrow> string \<Rightarrow> string \<Rightarrow> mstate option" where
  "scan r ic bs [] = m r ic Some \<lparr>prev = bs, rest = [], cap = None\<rparr>"
| "scan r ic bs (c # cs) =
     (case m r ic Some \<lparr>prev = bs, rest = c # cs, cap = None\<rparr> of
        Some s \<Rightarrow> Some s
      | None \<Rightarrow> scan r ic (c # bs) cs)"

text \<open>\<open>re.test(s)\<close>; the flag says whether the expression has the \<open>i\<close> flag.\<close>

definition test :: "rx \<Rightarrow> bool \<Rightarrow> string \<Rightarrow> bool" where
  "test r ic s = (scan r ic [] s \<noteq> None)"

text \<open>
  \<open>s.match(re)\<close> for an expression without the \<open>g\<close> flag: \<open>None\<close> is \<open>null\<close>;
  otherwise the result is element 1 of the match array, the text of the capturing group,
  which is \<open>undefined\<close> (\<open>None\<close>) when the group took no part in the match.
\<close>

definition match :: "string \<Rightarrow> rx \<Rightarrow> bool \<Rightarrow> string option option" where
  "match s r ic = (case scan r ic [] s of None \<Rightarrow> None | Some st \<Rightarrow> Some (cap st))"

section \<open>JavaScript values and \<open>JSON.parse\<close>\<close>

text \<open>
  The values \<open>JSON.parse\<close> can return, and \<open>undefined\<close>. A number is the exact value
  of its literal (the rounding to a double is not modelled; 0 and 1, the bounds the
  source compares with, are doubles). An object is the list of its own properties in
  insertion order, with distinct names.
\<close>

datatype jsvalue =
    JUndefined
  | JNull
  | JBool bool
  | JNum rat
  | JStr string
  | JArr "jsvalue list"
  | JObj "(string \<times> jsvalue) list"



text \<open>
  \<open>v.name\<close>, for the property names the source reads (\<open>content\<close>, \<open>artifact\<close>,
  \<open>title\<close>, ...; none of them is inherited from a prototype, and none is an array
  index). Reading a property of \<open>null\<close> or \<open>undefined\<close> throws a TypeError, which is
  \<open>None\<close>.
\<close>

fun getProp :: "jsvalue \<Rightarrow> string \<Rightarrow> jsvalue option" where
  "getProp JUndefined k = None"
| "getProp JNull k = None"
| "getProp (JObj ps) k = Some (case map_of ps k of Some v \<Rightarrow> v | None \<Rightarrow> JUndefined)"
| "getProp (JStr s) k = Some (if k = ''length'' then JNum (of_nat (length s)) else JUndefined)"
| "getProp (JArr xs) k = Some (if k = ''length'' then JNum (of_nat (length xs)) else JUndefined)"
| "getProp v k = Some JUndefined"



subsection \<open>The JSON grammar\<close>

text \<open>
  \<open>JSON.parse\<close> is a built-in; it is modelled on the grammar it implements (ECMA-404):
  a text is \<open>ws value ws\<close>, white space is SP, TAB, LF and CR, a later duplicate of a
  member name replaces the earlier value. A syntax error is \<open>None\<close>. A \<open>\u\<close> escape
  above \<open>00FF\<close> names a code unit outside the alphabet of this development, and
  such a text is not in its scope (\<open>None\<close>).
\<close>

definition isJsonWs :: "char \<Rightarrow> bool" where
  "isJsonWs c = (let n = code c in n = 32 \<or> n = 9 \<or> n = 10 \<or> n = 13)"

lemma isJsonWs_code [code]:
  "isJsonWs (Char b0 b1 b2 b3 b4 b5 b6 b7) =
     ((\<not> b7 \<and> \<not> b6 \<and> b5 \<and> \<not> b4 \<and> \<not> b3 \<and> \<not> b2 \<and> \<not> b1 \<and> \<not> b0) \<or>
      (\<not> b7 \<and> \<not> b6 \<and> \<not> b5 \<and> \<not> b4 \<and> b3 \<and>
         ((\<not> b2 \<and> \<not> b1 \<and> b0) \<or> (\<not> b2 \<and> b1 \<and> \<not> b0) \<or> (b2 \<and> \<not> b1 \<and> b0))))"
  by (cases b0; cases b1; cases b2; cases b3; cases b4; cases b5; cases b6; cases b7;
      simp add: isJsonWs_def code_def Let_def)

























section \<open>Structured responses: \<open>types.ts\<close>\<close>



section \<open>The response parser: \<open>StructuredResponseParser\<close>\<close>

record ParseResult =
  success :: bool
  response :: "jsvalue option"
  fallbackContent :: "string option"
  error :: "string option"

text \<open>\<open>{ success: false }\<close> and \<open>{ success: true, response }\<close>.\<close>

definition failure :: ParseResult where
  "failure = \<lparr>success = False, response = None, fallbackContent = None, error = None\<rparr>"

definition succeed :: "jsvalue \<Rightarrow> ParseResult" where
  "succeed r = \<lparr>success = True, response = Some r, fallbackContent = None, error = None\<rparr>"

text \<open>
  The calls of the logger are left out: they return nothing and the parser reads
  nothing back from them.
\<close>

subsection \<open>Inference of the type, category and complexity of a tool\<close>

definition inferToolType :: "string \<Rightarrow> string \<Rightarrow> string" where
  "inferToolType title content =
     (let titleLower = toLowerCase title; contentLower = toLowerCase content in
      if includesStr titleLower ''calculator'' \<or> includesStr contentLower ''calculate'' then ''calculator''
      else if includesStr titleLower ''dashboard'' \<or> includesStr contentLower ''dashboard'' then ''dashboard''
      else if includesStr titleLower ''component'' \<or> includesStr contentLower ''component'' then ''component''
      else if includesStr titleLower ''app'' \<or> includesStr contentLower ''application'' then ''app''
      else if includesStr titleLower ''utility'' \<or> includesStr contentLower ''utility'' then ''utility''
      else if includesStr titleLower ''tool'' then ''tool''
      else ''other'')"

definition inferToolCategory :: "string \<Rightarrow> string \<Rightarrow> string" where
  "inferToolCategory title content =
     (let combined = toLowerCase (title @ '' '' @ content) in
      if includesStr combined ''interactive'' \<or> includesStr combined ''click'' \<or> includesStr combined ''button''
      then ''interactive''
      else if includesStr combined ''chart'' \<or> includesStr combined ''graph'' \<or> includesStr combined ''visualization''
      then ''visualization''
      else if includesStr combined ''game'' \<or> includesStr combined ''play'' then ''game''
      else if includesStr combined ''productivity'' \<or> includesStr combined ''organize'' then ''productivity''
      else if includesStr combined ''data'' \<or> includesStr combined ''process'' then ''data-processing''
      else ''display'')"

text \<open>\<open>/class|interface|async|await|fetch|api/i\<close>\<close>

definition advancedPatterns :: rx where
  "advancedPatterns = words [''class'', ''interface'', ''async'', ''await'', ''fetch'', ''api'']"

text \<open>\<open>/for\s*\(|while\s*\(|switch\s*\(|try\s*\{|catch\s*\(/i\<close>\<close>

definition complexLogic :: rx where
  "complexLogic = alts
     [seqs [Lit ''for'', Star (Cls [Space]), Lit ''(''],
      seqs [Lit ''while'', Star (Cls [Space]), Lit ''(''],
      seqs [Lit ''switch'', Star (Cls [Space]), Lit ''(''],
      seqs [Lit ''try'', Star (Cls [Space]), Lit ''{''],
      seqs [Lit ''catch'', Star (Cls [Space]), Lit ''('']]"

definition inferComplexity :: "string \<Rightarrow> string" where
  "inferComplexity content =
     (let len = length content;
          hasAdvancedPatterns = test advancedPatterns True content;
          hasComplexLogic = test complexLogic True content
      in if len > 3000 \<or> hasAdvancedPatterns then ''advanced''
         else if len > 1500 \<or> hasComplexLogic then ''complex''
         else if len > 500 then ''moderate''
         else ''simple'')"

subsection \<open>Strategy 1: the text is a structured JSON response\<close>


subsection \<open>Strategy 2: a structured JSON response inside other text\<close>




subsection \<open>Strategy 3: an HTML tool in conversational text\<close>

definition toolKeywords :: "string list" where
  "toolKeywords = [''calculator'', ''timer'', ''converter'', ''form'', ''tracker'', ''tool'',
                   ''widget'', ''app'']"

text \<open>\<open>/<!DOCTYPE html|<html|<head|<body|<div|<input|<button/i\<close>\<close>

definition htmlPattern :: rx where
  "htmlPattern = words [''<!DOCTYPE html'', ''<html'', ''<head'', ''<body'', ''<div'',
                        ''<input'', ''<button'']"

text \<open>\<open>/```html\s*([\s\S]*?)\s*```/i\<close>\<close>

definition htmlCodeBlock :: rx where
  "htmlCodeBlock = seqs
     [Lit ''```html'', Star (Cls [Space]), Grp (Lazy AnyChar), Star (Cls [Space]), Lit ''```'']"

text \<open>\<open>/(<!DOCTYPE html[\s\S]*?<\/html>)/i\<close>\<close>

definition htmlDocument :: rx where
  "htmlDocument = Grp (seqs [Lit ''<!DOCTYPE html'', Lazy AnyChar, Lit ''</html>''])"

text \<open>\<open>/(<html[\s\S]*?<\/html>|<body[\s\S]*?<\/body>|<div[\s\S]*?<\/div>)/i\<close>\<close>

definition htmlBlock :: rx where
  "htmlBlock = Grp (alts
     [seqs [Lit ''<html'', Lazy AnyChar, Lit ''</html>''],
      seqs [Lit ''<body'', Lazy AnyChar, Lit ''</body>''],
      seqs [Lit ''<div'', Lazy AnyChar, Lit ''</div>'']])"

text \<open>
  The HTML the artifact holds; \<open>None\<close> is the TypeError of \<open>undefined.trim()\<close>.
\<close>

definition extractHTML :: "string \<Rightarrow> string option" where
  "extractHTML content =
     (case match content htmlCodeBlock True of
        Some codeBlockMatch \<Rightarrow> map_option trim codeBlockMatch
      | None \<Rightarrow>
          (case match content htmlDocument True of
             Some htmlMatch \<Rightarrow> map_option trim htmlMatch
           | None \<Rightarrow>
               (case match content htmlBlock True of
                  Some bodyMatch \<Rightarrow>
                    (case bodyMatch of
                       None \<Rightarrow> None
                     | Some g \<Rightarrow> if length g > 500 then Some (trim g) else Some content)
                | None \<Rightarrow> Some content)))"

definition toolTitle :: "string \<Rightarrow> string" where
  "toolTitle content =
     (let lower = toLowerCase content in
      if includesStr lower ''calculator'' then ''Calculator''
      else if includesStr lower ''timer'' then ''Timer''
      else if includesStr lower ''converter'' then ''Converter''
      else if includesStr lower ''form'' then ''Form''
      else if includesStr lower ''tracker'' then ''Tracker''
      else if includesStr lower ''counter'' then ''Counter''
      else if includesStr lower ''generator'' then ''Generator''
      else ''Interactive Tool'')"

text \<open>
  \<open>hasCSS\<close> and \<open>hasJS\<close> of the source are computed and never read; they are left out.
\<close>

definition detectHTMLTool :: "string \<Rightarrow> string \<Rightarrow> ParseResult" where
  "detectHTMLTool content agentUsed =
     (let hasToolKeyword =
            list_ex (\<lambda>keyword. includesStr (toLowerCase content) (toLowerCase keyword)) toolKeywords;
          hasHTML = test htmlPattern True content
      in if \<not> hasHTML \<or> length content < 1000 then failure
         else case extractHTML content of
           None \<Rightarrow> failure
         | Some htmlContent \<Rightarrow>
             (let title = toolTitle content;
                  artifact = JObj
                    [(''title'', JStr title),
                     (''content'', JStr htmlContent),
                     (''type'', JStr (inferToolType title htmlContent)),
                     (''category'', JStr (inferToolCategory title htmlContent)),
                     (''description'', JStr (''Generated '' @ toLowerCase title)),
                     (''complexity'', JStr (inferComplexity htmlContent))];
                  response = JObj
                    [(''content'', JStr content),
                     (''artifact'', artifact),
                     (''responseType'', JStr ''tool-generation''),
                     (''confidence'', JNum (if hasToolKeyword then 8 / 10 else 6 / 10)),
                     (''agentUsed'', JStr agentUsed)]
              in succeed response))"

subsection \<open>Strategy 4: a research result\<close>




subsection \<open>Strategy 5: the legacy \<open>TITLE:\<close> / \<open>TOOL:\<close> format\<close>

text \<open>\<open>/TITLE:\s*(.+)/\<close>\<close>

definition titlePattern :: rx where
  "titlePattern = seqs [Lit ''TITLE:'', Star (Cls [Space]), Grp (Plus Dot)]"

text \<open>\<open>/TOOL:\s*([\s\S]+?)(?:\n\nREASONING:|$)/\<close>\<close>

definition toolPattern :: rx where
  "toolPattern = seqs
     [Lit ''TOOL:'', Star (Cls [Space]), Grp (LazyPlus AnyChar),
      Alt (Lit ''\<newline>\<newline>REASONING:'') Eol]"

text \<open>\<open>/^```(?:html|javascript|css|js)?\s*([\s\S]*?)\s*```$/\<close>\<close>

definition codeFence :: rx where
  "codeFence = seqs
     [Bol, Lit ''```'', Opt (words [''html'', ''javascript'', ''css'', ''js'']),
      Star (Cls [Space]), Grp (Lazy AnyChar), Star (Cls [Space]), Lit ''```'', Eol]"

text \<open>\<open>/REASONING:\s*([\s\S]+?)$/\<close>\<close>

definition reasoningPattern :: rx where
  "reasoningPattern = seqs [Lit ''REASONING:'', Star (Cls [Space]), Grp (LazyPlus AnyChar), Eol]"

text \<open>The tool's text without the code fence around it, if it has one.\<close>

definition stripCodeFence :: "string \<Rightarrow> string option" where
  "stripCodeFence toolContent =
     (case match toolContent codeFence False of
        Some codeBlockMatch \<Rightarrow> map_option trim codeBlockMatch
      | None \<Rightarrow> Some toolContent)"

definition parseLegacyFormat :: "string \<Rightarrow> string \<Rightarrow> ParseResult" where
  "parseLegacyFormat content agentUsed =
     (let hasTitle = includesStr content ''TITLE:'';
          hasTool = includesStr content ''TOOL:''
      in if \<not> hasTitle \<or> \<not> hasTool then failure
         else case (match content titlePattern False, match content toolPattern False) of
           (Some (Some titleGroup), Some (Some toolGroup)) \<Rightarrow>
             (let title = trim titleGroup in
              case stripCodeFence (trim toolGroup) of
                None \<Rightarrow> failure
              | Some toolContent \<Rightarrow>
                  (case (case match content reasoningPattern False of
                           Some reasoningMatch \<Rightarrow> map_option (\<lambda>g. JStr (trim g)) reasoningMatch
                         | None \<Rightarrow> Some JUndefined) of
                     None \<Rightarrow> failure
                   | Some reasoning \<Rightarrow>
                       (let artifact = JObj
                              [(''title'', JStr title),
                               (''content'', JStr toolContent),
                               (''type'', JStr (inferToolType title toolContent)),
                               (''category'', JStr (inferToolCategory title toolContent)),
                               (''description'', JStr (''Generated tool: '' @ title)),
                               (''complexity'', JStr (inferComplexity toolContent))];
                            response = JObj
                              [(''content'', JStr content),
                               (''artifact'', artifact),
                               (''responseType'', JStr ''tool-generation''),
                               (''confidence'', JNum (7 / 10)),
                               (''reasoning'', reasoning),
                               (''agentUsed'', JStr agentUsed)]
                        in succeed response)))
         | _ \<Rightarrow> failure)"

subsection \<open>The cascade\<close>



text \<open>A property of the response, \<open>undefined\<close> when there is no response.\<close>

definition responseProp :: "ParseResult \<Rightarrow> string \<Rightarrow> jsvalue" where
  "responseProp result name =
     (case response result of
        None \<Rightarrow> JUndefined
      | Some r \<Rightarrow> (case getProp r name of None \<Rightarrow> JUndefined | Some v \<Rightarrow> v))"

section \<open>The safety content filter: \<open>NoahContentFilter\<close>\<close>

record SafetyContext =
  userMessage :: string
  conversationHistory :: "string list option"
  sessionId :: "string option"

record SafetyCheckResult =
  isAllowed :: bool
  violationType :: "string option"
  reason :: "string option"
  confidence :: rat
  radioSilence :: bool

text \<open>
  What a category check returns, \<open>{ isViolation, reason?, confidence }\<close>; the type has
  no name in the source.
\<close>

record IntentCheck =
  isViolation :: bool
  checkReason :: "string option"
  checkConfidence :: rat

definition violation :: "string \<Rightarrow> rat \<Rightarrow> IntentCheck" where
  "violation r c = \<lparr>isViolation = True, checkReason = Some r, checkConfidence = c\<rparr>"

definition noViolation :: IntentCheck where
  "noViolation = \<lparr>isViolation = False, checkReason = None, checkConfidence = 95 / 100\<rparr>"

text \<open>
  \<open>for (const pattern of patterns) if (pattern.test(messageLower)) ...\<close>: some pattern
  of the table matches. No pattern of the filter has a flag.
\<close>

definition anyMatch :: "rx list \<Rightarrow> string \<Rightarrow> bool" where
  "anyMatch patterns messageLower = list_ex (\<lambda>pattern. test pattern False messageLower) patterns"

subsection \<open>Bypass attempts and violence keywords\<close>

definition bypassPatterns :: "rx list" where
  "bypassPatterns =
    [seqs [Lit ''it's for a '', words [''story'', ''book'', ''movie'', ''novel'']],
      seqs [Lit ''writing '', words [''code'', ''software'']],
      Lit ''academic research'',
      Lit ''just curious'',
      Lit ''testing your limits'',
      Lit ''hypothetically'',
      Lit ''for educational purposes'',
      Lit ''asking for a friend'']"

definition hasNoExceptionsBypass :: "string \<Rightarrow> bool" where
  "hasNoExceptionsBypass messageLower = anyMatch bypassPatterns messageLower"

definition violenceKeywords :: "string list" where
  "violenceKeywords =
     [''bomb'', ''weapon'', ''explosive'', ''gun'', ''knife'', ''attack'', ''kill'', ''hurt'',
       ''harm'', ''violence'', ''murder'']"

definition hasViolenceKeywords :: "string \<Rightarrow> bool" where
  "hasViolenceKeywords messageLower =
     list_ex (\<lambda>keyword. includesStr messageLower keyword) violenceKeywords"

subsection \<open>Violence and weapons\<close>

definition instructionalPatterns :: "rx list" where
  "instructionalPatterns =
    [seqs [Lit ''how to '', words [''make'', ''build'', ''create'', ''construct''], Star Dot,
        words [''bomb'', ''weapon'', ''explosive'', ''gun'']],
      seqs [Lit ''teach me to '', words [''hurt'', ''harm'', ''kill'', ''attack'']],
      seqs [Lit ''help me '', words [''hurt'', ''harm'', ''kill'', ''attack'', ''fight'']],
      seqs [Lit ''instructions for '', words [''making'', ''building''], Star Dot,
        words [''weapon'', ''bomb'', ''explosive'']],
      seqs [Lit ''guide to '', words [''violence'', ''fighting'', ''hurting'']],
      seqs [Lit ''how '', words [''to'', ''do i'', ''can i'', ''should i'', ''could i'',
        ''would i'', ''might i''], Lit '' '', words [''kill'', ''murder'', ''hurt'', ''harm'',
        ''poison'', ''stab'', ''shoot'', ''strangle'', ''choke'', ''burn'', ''beat'',
        ''torture'', ''break'', ''injure'', ''maim'', ''cripple'', ''wound'', ''damage'',
        ''bruise'', ''cut'', ''slash'', ''slice'', ''punch'', ''kick'', ''slam'', ''crush'',
        ''fracture'', ''disable'', ''paralyze'', ''kidnap'', ''abduct'', ''snatch'',
        ''capture'', ''seize'', ''detain'', ''imprison'', ''confine'', ''trap'']],
      seqs [Lit ''how '', words [''can'', ''should'', ''could'', ''would'', ''might''],
        Lit '' i'', Star Dot, words [''kill'', ''murder'', ''hurt'', ''harm'', ''poison'',
        ''stab'', ''shoot'', ''strangle'', ''choke'', ''burn'', ''beat'', ''torture'',
        ''break'', ''injure'', ''maim'', ''cripple'', ''wound'', ''damage'', ''bruise'',
        ''cut'', ''slash'', ''slice'', ''punch'', ''kick'', ''slam'', ''crush'', ''fracture'',
        ''disable'', ''paralyze'', ''kidnap'', ''abduct'', ''snatch'', ''capture'', ''seize'',
        ''detain'', ''imprison'', ''confine'', ''trap'']],
      seqs [Lit ''how '', words [''can'', ''should'', ''could'', ''would'', ''might''],
        Lit '' we'', Star Dot, words [''kill'', ''murder'', ''hurt'', ''harm'', ''poison'',
        ''stab'', ''shoot'', ''strangle'', ''choke'', ''burn'', ''beat'', ''torture'',
        ''break'', ''injure'', ''maim'', ''cripple'', ''wound'', ''damage'', ''bruise'',
        ''cut'', ''slash'', ''slice'', ''punch'', ''kick'', ''slam'', ''crush'', ''fracture'',
        ''disable'', ''paralyze'', ''kidnap'', ''abduct'', ''snatch'', ''capture'', ''seize'',
        ''detain'', ''imprison'', ''confine'', ''trap'']],
      seqs [words [''best'', ''easiest'', ''fastest'', ''simplest''], Lit '' '',
        words [''way'', ''method''], Lit '' to '', words [''kill'', ''murder'', ''hurt'',
        ''harm'', ''poison'', ''stab'', ''shoot'', ''strangle'', ''choke'', ''burn'', ''beat'',
        ''torture'', ''break'', ''injure'', ''maim'', ''cripple'', ''wound'', ''damage'',
        ''bruise'', ''cut'', ''slash'', ''slice'', ''punch'', ''kick'', ''slam'', ''crush'',
        ''fracture'', ''disable'', ''paralyze'', ''kidnap'', ''abduct'', ''snatch'',
        ''capture'', ''seize'', ''detain'', ''imprison'', ''confine'', ''trap'']],
      seqs [Lit ''ways to '', words [''kill'', ''murder'', ''poison'', ''stab'', ''shoot'',
        ''strangle'', ''choke'', ''burn'', ''beat'', ''torture'', ''break'', ''injure'',
        ''maim'', ''cripple'', ''wound'', ''damage'', ''bruise'', ''cut'', ''slash'',
        ''slice'', ''punch'', ''kick'', ''slam'', ''crush'', ''fracture'', ''disable'',
        ''paralyze'', ''kidnap'', ''abduct'', ''snatch'', ''capture'', ''seize'', ''detain'',
        ''imprison'', ''confine'', ''trap'']],
      seqs [Lit ''teach me '', words [''to'', ''how to''], Lit '' '', words [''kill'',
        ''murder'', ''poison'', ''stab'', ''shoot'', ''strangle'', ''choke'', ''burn'',
        ''beat'', ''torture'', ''break'', ''injure'', ''maim'', ''cripple'', ''wound'',
        ''damage'', ''bruise'', ''cut'', ''slash'', ''slice'', ''punch'', ''kick'', ''slam'',
        ''crush'', ''fracture'', ''disable'', ''paralyze'', ''kidnap'', ''abduct'', ''snatch'',
        ''capture'', ''seize'', ''detain'', ''imprison'', ''confine'', ''trap'']],
      seqs [Lit ''show me how to '', words [''kill'', ''murder'', ''poison'', ''stab'',
        ''shoot'', ''strangle'', ''choke'', ''burn'', ''beat'', ''torture'', ''break'',
        ''injure'', ''maim'', ''cripple'', ''wound'', ''damage'', ''bruise'', ''cut'',
        ''slash'', ''slice'', ''punch'', ''kick'', ''slam'', ''crush'', ''fracture'',
        ''disable'', ''paralyze'', ''kidnap'', ''abduct'', ''snatch'', ''capture'', ''seize'',
        ''detain'', ''imprison'', ''confine'', ''trap'']],
      seqs [Lit ''show me'', Star Dot, words [''kill'', ''murder'', ''poison'', ''stab'',
        ''shoot'', ''strangle'', ''choke'', ''burn'', ''beat'', ''torture'', ''break'',
        ''injure'', ''maim'', ''cripple'', ''wound'', ''damage'', ''bruise'', ''cut'',
        ''slash'', ''slice'', ''punch'', ''kick'', ''slam'', ''crush'', ''fracture'',
        ''disable'', ''paralyze'', ''kidnap'', ''abduct'', ''snatch'', ''capture'', ''seize'',
        ''detain'', ''imprison'', ''confine'', ''trap''], Star Dot, words [''methods'',
        ''ways'', ''techniques'']],
      seqs [Lit ''help me '', words [''kill'', ''murder'', ''poison'', ''stab'', ''shoot'',
        ''strangle'', ''choke'', ''burn'', ''beat'', ''torture'', ''break'', ''injure'',
        ''maim'', ''cripple'', ''wound'', ''damage'', ''bruise'', ''cut'', ''slash'',
        ''slice'', ''punch'', ''kick'', ''slam'', ''crush'', ''fracture'', ''disable'',
        ''paralyze'', ''kidnap'', ''abduct'', ''snatch'', ''capture'', ''seize'', ''detain'',
        ''imprison'', ''confine'', ''trap'']],
      seqs [Lit ''instructions '', words [''for'', ''to''], Lit '' '', words [''kill'',
        ''murder'', ''poison'', ''stab'', ''shoot'', ''strangle'', ''choke'', ''burn'',
        ''beat'', ''torture'', ''break'', ''injure'', ''maim'', ''cripple'', ''wound'',
        ''damage'', ''bruise'', ''cut'', ''slash'', ''slice'', ''punch'', ''kick'', ''slam'',
        ''crush'', ''fracture'', ''disable'', ''paralyze'']],
      seqs [Lit ''get away with '', words [''killing'', ''murdering'', ''hurting'',
        ''harming'', ''poisoning'', ''stabbing'', ''shooting'', ''strangling'', ''choking'',
        ''burning'', ''beating'', ''torturing'', ''breaking'', ''injuring'', ''maiming'',
        ''crippling'', ''wounding'', ''damaging'', ''bruising'', ''cutting'', ''slashing'',
        ''slicing'', ''punching'', ''kicking'', ''slamming'', ''crushing'', ''fracturing'',
        ''disabling'', ''paralyzing'']],
      seqs [words [''give me'', ''provide'', ''share''], Lit '' ideas for '',
        words [''killing'', ''murdering'', ''hurting'', ''harming'', ''poisoning'',
        ''stabbing'', ''shooting'', ''strangling'', ''choking'', ''burning'', ''beating'',
        ''torturing'', ''breaking'', ''injuring'', ''maiming'', ''crippling'', ''wounding'',
        ''damaging'', ''bruising'', ''cutting'', ''slashing'', ''slicing'', ''punching'',
        ''kicking'', ''slamming'', ''crushing'', ''fracturing'', ''disabling'', ''paralyzing'']],
      seqs [words [''tips'', ''advice''], Lit '' '', words [''on'', ''for''], Lit '' '',
        words [''killing'', ''murdering'', ''hurting'', ''harming'', ''poisoning'',
        ''stabbing'', ''shooting'', ''strangling'', ''choking'', ''burning'', ''beating'',
        ''torturing'', ''breaking'', ''injuring'', ''maiming'', ''crippling'', ''wounding'',
        ''damaging'', ''bruising'', ''cutting'', ''slashing'', ''slicing'', ''punching'',
        ''kicking'', ''slamming'', ''crushing'', ''fracturing'', ''disabling'', ''paralyzing'']],
      seqs [Lit ''figure out how to '', words [''kill'', ''murder'', ''hurt'', ''harm'',
        ''poison'', ''stab'', ''shoot'', ''strangle'', ''choke'', ''burn'', ''beat'',
        ''torture'', ''break'', ''injure'', ''maim'', ''cripple'', ''wound'', ''damage'',
        ''bruise'', ''cut'', ''slash'', ''slice'', ''punch'', ''kick'', ''slam'', ''crush'',
        ''fracture'', ''disable'', ''paralyze'']],
      seqs [Lit ''help me think of ways to '', words [''kill'', ''murder'', ''hurt'', ''harm'',
        ''poison'', ''stab'', ''shoot'', ''strangle'', ''choke'', ''burn'', ''beat'',
        ''torture'', ''break'', ''injure'', ''maim'', ''cripple'', ''wound'', ''damage'',
        ''bruise'', ''cut'', ''slash'', ''slice'', ''punch'', ''kick'', ''slam'', ''crush'',
        ''fracture'', ''disable'', ''paralyze'']],
      seqs [Lit ''suggest ways to '', words [''kill'', ''murder'', ''hurt'', ''harm'',
        ''poison'', ''stab'', ''shoot'', ''strangle'', ''choke'', ''burn'', ''beat'',
        ''torture'', ''break'', ''injure'', ''maim'', ''cripple'', ''wound'', ''damage'',
        ''bruise'', ''cut'', ''slash'', ''slice'', ''punch'', ''kick'', ''slam'', ''crush'',
        ''fracture'', ''disable'', ''paralyze'']],
      seqs [Lit ''brainstorm'', Star Dot, Lit ''to '', words [''kill'', ''murder'', ''hurt'',
        ''harm'', ''poison'', ''stab'', ''shoot'', ''strangle'', ''choke'', ''burn'', ''beat'',
        ''torture'', ''break'', ''injure'', ''maim'', ''cripple'', ''wound'', ''damage'',
        ''bruise'', ''cut'', ''slash'', ''slice'', ''punch'', ''kick'', ''slam'', ''crush'',
        ''fracture'', ''disable'', ''paralyze'']],
      seqs [words [''help'', ''assistance''], Lit '' to '', words [''kill'', ''murder'',
        ''hurt'', ''harm'', ''poison'', ''stab'', ''shoot'', ''strangle'', ''choke'', ''burn'',
        ''beat'', ''torture'', ''break'', ''injure'', ''maim'', ''cripple'', ''wound'',
        ''damage'', ''bruise'', ''cut'', ''slash'', ''slice'', ''punch'', ''kick'', ''slam'',
        ''crush'', ''fracture'', ''disable'', ''paralyze'']],
      seqs [words [''advice'', ''tips'', ''ideas''], Lit '' '', words [''to'', ''about''],
        Lit '' '', words [''killing'', ''murdering'', ''hurting'', ''harming'', ''poisoning'',
        ''stabbing'', ''shooting'', ''strangling'', ''choking'', ''burning'', ''beating'',
        ''torturing'', ''breaking'', ''injuring'', ''maiming'', ''crippling'', ''wounding'',
        ''damaging'', ''bruising'', ''cutting'', ''slashing'', ''slicing'', ''punching'',
        ''kicking'', ''slamming'', ''crushing'', ''fracturing'', ''disabling'', ''paralyzing'']],
      seqs [Lit ''give me'', Star Dot, Lit ''to '', words [''kill'', ''murder'', ''hurt'',
        ''harm'', ''poison'', ''stab'', ''shoot'', ''strangle'', ''choke'', ''burn'', ''beat'',
        ''torture'', ''break'', ''injure'', ''maim'', ''cripple'', ''wound'', ''damage'',
        ''bruise'', ''cut'', ''slash'', ''slice'', ''punch'', ''kick'', ''slam'', ''crush'',
        ''fracture'', ''disable'', ''paralyze'']]]"

definition planningPatterns :: "rx list" where
  "planningPatterns =
    [seqs [Lit ''i want to '', words [''hurt'', ''harm'', ''kill'', ''attack'']],
      seqs [Lit ''i'm going to '', words [''hurt'', ''harm'', ''kill'', ''attack'']],
      seqs [Lit ''planning to '', words [''hurt'', ''harm'', ''kill'', ''attack'']],
      seqs [Lit ''help me plan'', Star Dot, Lit ''attack''],
      Lit ''want to get revenge'',
      seqs [Lit ''i want to '', words [''kill'', ''murder'', ''poison'', ''stab'', ''shoot'',
        ''strangle'', ''choke'', ''burn'', ''beat'', ''torture'']],
      seqs [Lit ''i'm going to '', words [''kill'', ''murder'', ''poison'', ''stab'',
        ''shoot'', ''strangle'', ''choke'', ''burn'', ''beat'', ''torture'']],
      seqs [Lit ''planning to '', words [''kill'', ''murder'', ''poison'', ''stab'', ''shoot'',
        ''strangle'', ''choke'', ''burn'', ''beat'', ''torture'']],
      seqs [Lit ''going to '', words [''kill'', ''murder'', ''poison'', ''stab'', ''shoot'',
        ''strangle'', ''choke'', ''burn'', ''beat'', ''torture'']],
      seqs [Lit ''want to '', words [''kill'', ''murder'', ''poison'', ''stab'', ''shoot'',
        ''strangle'', ''choke'', ''burn'', ''beat'', ''torture'']],
      seqs [words [''kill'', ''murder'', ''poison'', ''stab'', ''shoot'', ''strangle'',
        ''choke'', ''burn'', ''beat'', ''torture''], Star Dot, alts [Lit ''someone'',
        seqs [Lit ''my'', Star Dot, Lit ''neighbor''], seqs [Lit ''my'', Star Dot,
        Lit ''roommate''], seqs [Lit ''my'', Star Dot, Lit ''friend''], seqs [Lit ''my'',
        Star Dot, Lit ''boss''], Lit ''people'']],
      seqs [Lit ''show me how to'', Star Dot, Lit ''my'', Star Dot, words [''neighbor'',
        ''roommate'', ''friend'', ''boss'', ''family'']],
      seqs [Lit ''help me '', words [''hurt'', ''kill'', ''attack''], Star Dot, Lit ''my'',
        Star Dot, words [''neighbor'', ''roommate'', ''friend'', ''boss'', ''family'']],
      seqs [Lit ''i need '', words [''advice'', ''help'', ''ideas''], Lit '' '', words [''on'',
        ''for'', ''to'', ''about''], Lit '' '', words [''killing'', ''murdering'', ''hurting'',
        ''harming'', ''breaking'', ''injuring'', ''maiming'', ''crippling'', ''wounding'',
        ''damaging'', ''bruising'', ''cutting'', ''slashing'', ''slicing'', ''punching'',
        ''kicking'', ''slamming'', ''crushing'', ''fracturing'', ''disabling'', ''paralyzing'']],
      seqs [Lit ''i need help '', words [''killing'', ''murdering'', ''hurting'', ''harming'',
        ''breaking'', ''injuring'', ''maiming'', ''crippling'', ''wounding'', ''damaging'',
        ''bruising'', ''cutting'', ''slashing'', ''slicing'', ''punching'', ''kicking'',
        ''slamming'', ''crushing'', ''fracturing'', ''disabling'', ''paralyzing'']],
      seqs [words [''please'', ''pls''], Lit '' help me '', words [''kill'', ''murder'',
        ''hurt'', ''harm'', ''break'', ''injure'', ''maim'', ''cripple'', ''wound'',
        ''damage'', ''bruise'', ''cut'', ''slash'', ''slice'', ''punch'', ''kick'', ''slam'',
        ''crush'', ''fracture'', ''disable'', ''paralyze'']],
      seqs [words [''please'', ''pls''], Lit '' '', words [''give me'', ''provide''],
        Lit '' '', words [''advice'', ''help'', ''tips'', ''ideas''], Lit '' to '',
        words [''kill'', ''murder'', ''hurt'', ''harm'', ''break'', ''injure'', ''maim'',
        ''cripple'', ''wound'', ''damage'', ''bruise'', ''cut'', ''slash'', ''slice'',
        ''punch'', ''kick'', ''slam'', ''crush'', ''fracture'', ''disable'', ''paralyze'']],
      seqs [Lit ''figure out'', Star Dot, Lit ''to '', words [''kill'', ''murder'', ''hurt'',
        ''harm'', ''break'', ''injure'', ''maim'', ''cripple'', ''wound'', ''damage'',
        ''bruise'', ''cut'', ''slash'', ''slice'', ''punch'', ''kick'', ''slam'', ''crush'',
        ''fracture'', ''disable'', ''paralyze'']],
      seqs [Lit ''get away with '', words [''killing'', ''murdering'', ''hurting'',
        ''harming'', ''breaking'', ''injuring'', ''maiming'', ''crippling'', ''wounding'',
        ''damaging'', ''bruising'', ''cutting'', ''slashing'', ''slicing'', ''punching'',
        ''kicking'', ''slamming'', ''crushing'', ''fracturing'', ''disabling'', ''paralyzing'']],
      seqs [words [''give me'', ''provide'', ''share''], Lit '' '', words [''advice'',
        ''help'', ''tips'', ''ideas''], Lit '' to '', words [''kill'', ''murder'', ''hurt'',
        ''harm'', ''break'', ''injure'', ''maim'', ''cripple'', ''wound'', ''damage'',
        ''bruise'', ''cut'', ''slash'', ''slice'', ''punch'', ''kick'', ''slam'', ''crush'',
        ''fracture'', ''disable'', ''paralyze'']]]"

definition glorificationPatterns :: "rx list" where
  "glorificationPatterns =
    [seqs [Lit ''violence is '', words [''good'', ''great'', ''awesome'']],
      seqs [Lit ''killing is '', words [''fun'', ''easy'', ''justified'']],
      seqs [Lit ''should '', words [''hurt'', ''kill'', ''attack''], Star Dot, Lit ''people'']]"

definition checkViolenceIntent :: "string \<Rightarrow> string \<Rightarrow> IntentCheck" where
  "checkViolenceIntent messageLower originalMessage =
     (if anyMatch instructionalPatterns messageLower
      then violation ''Instructional content for violence/weapons'' (95 / 100)
      else if anyMatch planningPatterns messageLower
      then violation ''Planning violence against others'' (90 / 100)
      else if anyMatch glorificationPatterns messageLower
      then violation ''Glorifying or encouraging violence'' (85 / 100)
      else if hasNoExceptionsBypass messageLower \<and> hasViolenceKeywords messageLower
      then violation ''Attempted bypass of violence restrictions'' (80 / 100)
      else noViolation)"

subsection \<open>Self-harm\<close>

definition selfHarmInstructions :: "rx list" where
  "selfHarmInstructions =
    [seqs [Lit ''how to '', words [''cut'', ''hurt'', ''harm''], Lit '' myself''],
      seqs [Lit ''ways to '', words [''end'', ''kill''], Lit '' myself''],
      seqs [Lit ''teach me to'', Star Dot, Lit ''self'', Star Dot, Lit ''harm''],
      seqs [Lit ''methods for'', Star Dot, Lit ''suicide''],
      seqs [Lit ''help me '', words [''hurt'', ''harm'', ''kill''], Lit '' myself''],
      seqs [Lit ''how to'', Star Dot, Lit ''suicide''],
      seqs [Lit ''ways to'', Star Dot, Lit ''suicide''],
      seqs [Lit ''methods to'', Star Dot, Lit ''kill'', Star Dot, Lit ''myself''],
      seqs [Lit ''how to'', Star Dot, Lit ''overdose''],
      seqs [Lit ''ways to'', Star Dot, Lit ''overdose'']]"

definition directSelfHarmIntent :: "rx list" where
  "directSelfHarmIntent =
    [seqs [Lit ''i want to '', words [''kill'', ''hurt'', ''harm'', ''cut''], Lit '' myself''],
      seqs [Lit ''i'm going to '', words [''kill'', ''hurt'', ''harm'', ''cut''],
        Lit '' myself''],
      seqs [Lit ''i want to '', words [''die'', ''suicide'', ''end it'']],
      seqs [Lit ''i'm going to '', words [''die'', ''suicide'', ''end it'']],
      Lit ''going to kill myself'',
      Lit ''want to kill myself'',
      Lit ''planning to kill myself'',
      Lit ''thinking of killing myself'',
      Lit ''considering suicide'',
      seqs [Lit ''want to end'', Star Dot, Lit ''life''],
      seqs [Lit ''going to end'', Star Dot, Lit ''life''],
      Lit ''ready to die'',
      Lit ''want to die'',
      Lit ''going to die'',
      seqs [Lit ''end it'', Star Dot, Lit ''tonight''],
      seqs [Lit ''end it'', Star Dot, Lit ''today''],
      seqs [Lit ''kill myself'', Star Dot, Lit ''tonight''],
      seqs [Lit ''kill myself'', Star Dot, Lit ''today''],
      seqs [Lit ''suicide'', Star Dot, Lit ''tonight''],
      seqs [Lit ''suicide'', Star Dot, Lit ''today''],
      Lit ''i feel suicidal'',
      seqs [Lit ''i might '', words [''kill'', ''hurt''], Lit '' myself''],
      seqs [Lit ''i feel like '', words [''ending'', ''killing'']],
      seqs [Lit ''i feel like '', words [''ending'', ''killing''], Star Dot,
        words [''my life'', ''myself'']],
      seqs [Lit ''planning to end'', Star Dot, Lit ''life''],
      Lit ''i'm suicidal'',
      seqs [Lit ''thinking about ending'', Star Dot, words [''it'', ''my life'']],
      Lit ''plan to end my life'',
      seqs [Lit ''might end'', Star Dot, Lit ''life''],
      Lit ''might kill myself'',
      Lit ''might suicide'',
      seqs [Lit ''considering ending'', Star Dot, words [''it'', ''my life'']],
      Lit ''feel like dying'',
      Lit ''feel like ending it'',
      seqs [Lit ''thinking of ending'', Star Dot, words [''it'', ''my life'']],
      seqs [Lit ''planning'', Star Dot, Lit ''end'', Star Dot, Lit ''life''],
      seqs [Lit ''plan'', Star Dot, Lit ''kill'', Star Dot, Lit ''myself''],
      seqs [Lit ''might'', Star Dot, Lit ''end'', Star Dot, Lit ''tonight''],
      seqs [Lit ''might'', Star Dot, Lit ''end'', Star Dot, Lit ''today''],
      seqs [Lit ''thinking'', Star Dot, Lit ''suicide''],
      seqs [Lit ''considering'', Star Dot, Lit ''kill'', Star Dot, Lit ''myself''],
      seqs [Lit ''feel'', Star Dot, Lit ''suicidal'', Star Dot, Lit ''thoughts''],
      seqs [Lit ''having'', Star Dot, Lit ''suicidal'', Star Dot, Lit ''thoughts'']]"

definition encouragementPatterns :: "rx list" where
  "encouragementPatterns =
    [seqs [Lit ''you should '', words [''hurt'', ''kill''], Lit '' yourself''],
      seqs [Lit ''self'', Star Dot, Lit ''harm is '', words [''good'', ''justified'']],
      Lit ''suicide is the answer'',
      Lit ''you'd be better off dead'']"

definition checkSelfHarmIntent :: "string \<Rightarrow> string \<Rightarrow> IntentCheck" where
  "checkSelfHarmIntent messageLower originalMessage =
     (if anyMatch selfHarmInstructions messageLower
      then violation ''Instructions for self-harm'' (95 / 100)
      else if anyMatch directSelfHarmIntent messageLower
      then violation ''Direct self-harm intent statement'' (98 / 100)
      else if anyMatch encouragementPatterns messageLower
      then violation ''Encouraging self-harm'' (90 / 100)
      else noViolation)"

subsection \<open>Child safety\<close>

definition groomingPatterns :: "rx list" where
  "groomingPatterns =
    [seqs [Lit ''how to'', Star Dot, Lit ''approach'', Star Dot, Lit ''child''],
      seqs [Lit ''ways to'', Star Dot, Lit ''contact'', Star Dot, Lit ''minors''],
      seqs [Lit ''help me'', Star Dot, Lit ''meet'', Star Dot, Lit ''kids''],
      seqs [Lit ''teach me'', Star Dot, Lit ''groom''],
      seqs [Lit ''instructions'', Star Dot, Lit ''child'', Star Dot, Lit ''alone''],
      seqs [Lit ''help me'', Star Dot, Lit ''approach'', Star Dot, Lit ''kids''],
      seqs [Lit ''ways to'', Star Dot, Lit ''approach'', Star Dot, Lit ''kids''],
      seqs [Lit ''approach'', Star Dot, Lit ''kids'', Star Dot, Lit ''without'', Star Dot,
        Lit ''parents''],
      seqs [Lit ''contact'', Star Dot, Lit ''kids'', Star Dot, Lit ''without'', Star Dot,
        Lit ''parents''],
      seqs [Lit ''meet'', Star Dot, Lit ''children'', Star Dot, Lit ''without'', Star Dot,
        Lit ''supervision''],
      seqs [Lit ''talk'', Star Dot, Lit ''to'', Star Dot, Lit ''kids'', Star Dot, Lit ''alone''],
      seqs [Lit ''get'', Star Dot, Lit ''close'', Star Dot, Lit ''to'', Star Dot,
        Lit ''children''],
      seqs [Lit ''befriend'', Star Dot, Lit ''young'', Star Dot, Lit ''people''],
      seqs [Lit ''gain'', Star Dot, Lit ''trust'', Star Dot, Lit ''of'', Star Dot,
        Lit ''child''],
      seqs [words [''how'', ''ways''], Star Dot, Lit ''to'', Star Dot, Lit ''talk'', Star Dot,
        Lit ''to'', Star Dot, Lit ''kids'', Star Dot, Lit ''privately''],
      seqs [Lit ''ways'', Star Dot, Lit ''to'', Star Dot, Lit ''isolate'', Star Dot,
        Lit ''child'']]"

definition exploitationPatterns :: "rx list" where
  "exploitationPatterns =
    [seqs [Lit ''sexual'', Star Dot, Lit ''with'', Star Dot, Lit ''child''],
      seqs [Lit ''teach'', Star Dot, Lit ''child'', Star Dot, Lit ''about'', Star Dot,
        Lit ''sex''],
      seqs [Lit ''show'', Star Dot, Lit ''child'', Star Dot, Lit ''inappropriate''],
      seqs [Lit ''seduce'', Star Dot, Lit ''minor''],
      seqs [Lit ''sexual'', Star Dot, Lit ''relationship'', Star Dot, Lit ''with'', Star Dot,
        Lit ''kid''],
      seqs [Lit ''inappropriate'', Star Dot, Lit ''touch'', Star Dot, Lit ''child''],
      seqs [Lit ''child'', Star Dot, Lit ''sexual''],
      seqs [Lit ''minor'', Star Dot, Lit ''sexual''],
      seqs [Lit ''kid'', Star Dot, Lit ''inappropriate''],
      seqs [Lit ''young'', Star Dot, Lit ''person'', Star Dot, Lit ''sexual''],
      seqs [Lit ''teach'', Star Dot, Lit ''kids'', Star Dot, Lit ''adult'', Star Dot,
        Lit ''things''],
      seqs [Lit ''show'', Star Dot, Lit ''kids'', Star Dot, Lit ''private'', Star Dot,
        Lit ''parts''],
      seqs [Lit ''child'', Star Dot, Lit ''abuse''],
      seqs [Lit ''hurt'', Star Dot, Lit ''child'', Star Dot, Lit ''sexually''],
      seqs [Lit ''touch'', Star Dot, Lit ''kids'', Star Dot, Lit ''inappropriately'']]"

definition euphemisticPatterns :: "rx list" where
  "euphemisticPatterns =
    [seqs [Lit ''special'', Star Dot, Lit ''relationship'', Star Dot, Lit ''with'', Star Dot,
        Lit ''child''],
      seqs [Lit ''private'', Star Dot, Lit ''games'', Star Dot, Lit ''with'', Star Dot,
        Lit ''kids''],
      seqs [Lit ''secret'', Star Dot, Lit ''between'', Star Dot, Lit ''us'', Star Dot,
        Lit ''child''],
      seqs [Lit ''don'', Star Dot, Lit ''t'', Star Dot, Lit ''tell'', Star Dot, Lit ''parents''],
      seqs [Lit ''our'', Star Dot, Lit ''little'', Star Dot, Lit ''secret'', Star Dot,
        Lit ''kid''],
      seqs [Lit ''special'', Star Dot, Lit ''friend'', Star Dot, Lit ''child''],
      seqs [Lit ''teach'', Star Dot, Lit ''child'', Star Dot, Lit ''grown'', Star Dot,
        Lit ''up'', Star Dot, Lit ''games''],
      seqs [Lit ''child'', Star Dot, Lit ''mature'', Star Dot, Lit ''for'', Star Dot,
        Lit ''age''],
      seqs [Lit ''old'', Star Dot, Lit ''enough'', Star Dot, Lit ''to'', Star Dot,
        Lit ''understand''],
      seqs [Lit ''child'', Star Dot, Lit ''ready'', Star Dot, Lit ''for'', Star Dot,
        Lit ''adult''],
      seqs [Lit ''young'', Star Dot, Lit ''but'', Star Dot, Lit ''mature''],
      seqs [Lit ''age'', Star Dot, Lit ''just'', Star Dot, Lit ''number''],
      seqs [Lit ''child'', Star Dot, Lit ''consenting''],
      seqs [Lit ''kid'', Star Dot, Lit ''wants'', Star Dot, Lit ''this'']]"

definition onlinePredatorPatterns :: "rx list" where
  "onlinePredatorPatterns =
    [seqs [Lit ''find'', Star Dot, Lit ''children'', Star Dot, Lit ''online''],
      seqs [Lit ''chat'', Star Dot, Lit ''with'', Star Dot, Lit ''kids'', Star Dot,
        Lit ''privately''],
      seqs [Lit ''meet'', Star Dot, Lit ''kids'', Star Dot, Lit ''from'', Star Dot,
        Lit ''internet''],
      seqs [Lit ''social'', Star Dot, Lit ''media'', Star Dot, Lit ''kids''],
      seqs [Lit ''gaming'', Star Dot, Lit ''with'', Star Dot, Lit ''children'', Star Dot,
        Lit ''alone''],
      seqs [Lit ''video'', Star Dot, Lit ''chat'', Star Dot, Lit ''with'', Star Dot,
        Lit ''minors''],
      seqs [Lit ''send'', Star Dot, Lit ''pictures'', Star Dot, Lit ''to'', Star Dot,
        Lit ''kids''],
      seqs [Lit ''ask'', Star Dot, Lit ''kids'', Star Dot, Lit ''for'', Star Dot,
        Lit ''photos''],
      seqs [Lit ''snapchat'', Star Dot, Lit ''with'', Star Dot, Lit ''children''],
      seqs [Lit ''discord'', Star Dot, Lit ''kids'', Star Dot, Lit ''private''],
      seqs [Lit ''instagram'', Star Dot, Lit ''young'', Star Dot, Lit ''people''],
      seqs [Lit ''tiktok'', Star Dot, Lit ''children'', Star Dot, Lit ''contact'']]"

definition supervisionBypassPatterns :: "rx list" where
  "supervisionBypassPatterns =
    [seqs [Lit ''without'', Star Dot, Lit ''parents'', Star Dot, Lit ''knowing''],
      seqs [Lit ''when'', Star Dot, Lit ''parents'', Star Dot, Lit ''not'', Star Dot,
        Lit ''home''],
      seqs [Lit ''avoid'', Star Dot, Lit ''adult'', Star Dot, Lit ''supervision''],
      seqs [Lit ''sneak'', Star Dot, Lit ''away'', Star Dot, Lit ''with'', Star Dot,
        Lit ''child''],
      seqs [Lit ''take'', Star Dot, Lit ''child'', Star Dot, Lit ''somewhere'', Star Dot,
        Lit ''private''],
      seqs [Lit ''get'', Star Dot, Lit ''child'', Star Dot, Lit ''alone''],
      seqs [Lit ''away'', Star Dot, Lit ''from'', Star Dot, Lit ''family''],
      seqs [Lit ''without'', Star Dot, Lit ''guardian'', Star Dot, Lit ''permission''],
      seqs [Lit ''behind'', Star Dot, Lit ''parents'', Star Dot, Lit ''back''],
      seqs [Lit ''when'', Star Dot, Lit ''no'', Star Dot, Lit ''adults'', Star Dot,
        Lit ''around'']]"

definition ageTargetingPatterns :: "rx list" where
  "ageTargetingPatterns =
    [seqs [Lit ''looking'', Star Dot, Lit ''for'', Star Dot, Lit ''young''],
      seqs [Lit ''prefer'', Star Dot, Lit ''younger''],
      seqs [Lit ''kids'', Star Dot, Lit ''under'', Star Dot, Plus (Cls [Digit])],
      seqs [Lit ''children'', Star Dot, Lit ''age'', Star Dot, Plus (Cls [Digit])],
      seqs [Lit ''teens'', Star Dot, Lit ''young''],
      seqs [Lit ''elementary'', Star Dot, Lit ''age''],
      seqs [Lit ''middle'', Star Dot, Lit ''school'', Star Dot, Lit ''kids''],
      seqs [Lit ''high'', Star Dot, Lit ''school'', Star Dot, Lit ''young''],
      seqs [Lit ''college'', Star Dot, Lit ''freshman''],
      seqs [Lit ''barely'', Star Dot, Lit ''legal''],
      seqs [Lit ''just'', Star Dot, Lit ''turned'', Star Dot, Plus (Cls [Digit])]]"

definition sexualExploitationAgePatterns :: "rx list" where
  "sexualExploitationAgePatterns =
    [seqs [words [''sex'', ''sexual'', ''fuck'', ''screw'', ''bang'', ''sleep with'',
        ''have sex with'', ''want to'', ''attracted to'', ''touch'', ''kiss'', ''date'',
        ''relationship with''], Star Dot, alts [seqs [Lit ''1'',
        Cls [Range (CHR ''0'') (CHR ''7'')]], Cls [Range (CHR ''5'') (CHR ''9'')]],
        Star (Cls [Space, One (CHR ''-'')]), words [''year'', ''yr''], Star (Cls [Space,
        One (CHR ''-'')]), Lit ''old'', Opt (Lit ''s'')],
      seqs [words [''sex'', ''sexual'', ''fuck'', ''screw'', ''bang'', ''sleep with'',
        ''have sex with'', ''want to'', ''attracted to'', ''touch'', ''kiss'', ''date'',
        ''relationship with''], Star Dot, alts [seqs [Lit ''1'',
        Cls [Range (CHR ''0'') (CHR ''7'')]], Cls [Range (CHR ''5'') (CHR ''9'')]],
        Star (Cls [Space, One (CHR ''-'')]), Lit ''yo''],
      seqs [words [''sex'', ''sexual'', ''fuck'', ''screw'', ''bang'', ''sleep with'',
        ''have sex with'', ''want to'', ''attracted to'', ''touch'', ''kiss'', ''date'',
        ''relationship with''], Star Dot, alts [seqs [Lit ''1'',
        Cls [Range (CHR ''0'') (CHR ''7'')]], Cls [Range (CHR ''5'') (CHR ''9'')]],
        Star (Cls [Space, One (CHR ''-'')]), Lit ''y/o''],
      seqs [words [''sex'', ''sexual'', ''fuck'', ''screw'', ''bang'', ''sleep with'',
        ''have sex with'', ''want to'', ''attracted to'', ''touch'', ''kiss'', ''date'',
        ''relationship with''], Star Dot, alts [seqs [Lit ''1'',
        Cls [Range (CHR ''0'') (CHR ''7'')]], Cls [Range (CHR ''5'') (CHR ''9'')]],
        Star (Cls [Space, One (CHR ''-'')]), Lit ''yr'', Opt (Lit ''s''), WordB],
      seqs [words [''sex'', ''sexual'', ''fuck'', ''screw'', ''bang'', ''sleep with'',
        ''have sex with'', ''want to'', ''attracted to'', ''touch'', ''kiss'', ''date'',
        ''relationship with''], Star Dot, alts [seqs [Lit ''1'',
        Cls [Range (CHR ''0'') (CHR ''7'')]], Cls [Range (CHR ''5'') (CHR ''9'')]],
        Star (Cls [Space, One (CHR ''-'')]), Lit ''year'', Opt (Lit ''s''), Star (Cls [Space,
        One (CHR ''-'')]), Lit ''old'', Opt (Lit ''s'')],
      seqs [words [''sex'', ''sexual'', ''fuck'', ''screw'', ''bang'', ''sleep with'',
        ''have sex with'', ''want to'', ''attracted to'', ''touch'', ''kiss'', ''date'',
        ''relationship with''], Star Dot, alts [seqs [Lit ''1'',
        Cls [Range (CHR ''0'') (CHR ''7'')]], Cls [Range (CHR ''5'') (CHR ''9'')]],
        Star (Cls [Space, One (CHR ''-'')]), Lit ''year'', Star (Cls [Space, One (CHR ''-'')]),
        Lit ''old'', Opt (Lit ''s'')],
      seqs [words [''sex'', ''sexual'', ''fuck'', ''screw'', ''bang'', ''sleep with'',
        ''have sex with'', ''want to'', ''attracted to'', ''touch'', ''kiss'', ''date'',
        ''relationship with''], Star Dot, WordB, alts [seqs [Lit ''1'',
        Cls [Range (CHR ''0'') (CHR ''7'')]], Cls [Range (CHR ''5'') (CHR ''9'')]], WordB],
      seqs [words [''sex'', ''sexual'', ''fuck'', ''screw'', ''bang'', ''sleep with'',
        ''have sex with'', ''want to'', ''attracted to'', ''touch'', ''kiss'', ''date'',
        ''relationship with''], Star Dot, words [''five'', ''six'', ''seven'', ''eight'',
        ''nine'', ''ten'', ''eleven'', ''twelve'', ''thirteen'', ''fourteen'', ''fifteen'',
        ''sixteen'', ''seventeen''], Star (Cls [Space, One (CHR ''-'')]), words [''year'',
        ''yr''], Star (Cls [Space, One (CHR ''-'')]), Lit ''old'', Opt (Lit ''s'')],
      seqs [words [''sex'', ''sexual'', ''fuck'', ''screw'', ''bang'', ''sleep with'',
        ''have sex with'', ''want to'', ''attracted to'', ''touch'', ''kiss'', ''date'',
        ''relationship with''], Star Dot, words [''five'', ''six'', ''seven'', ''eight'',
        ''nine'', ''ten'', ''eleven'', ''twelve'', ''thirteen'', ''fourteen'', ''fifteen'',
        ''sixteen'', ''seventeen''], Star (Cls [Space, One (CHR ''-'')]), Lit ''yo''],
      seqs [words [''sex'', ''sexual'', ''fuck'', ''screw'', ''bang'', ''sleep with'',
        ''have sex with'', ''want to'', ''attracted to'', ''touch'', ''kiss'', ''date'',
        ''relationship with''], Star Dot, words [''five'', ''six'', ''seven'', ''eight'',
        ''nine'', ''ten'', ''eleven'', ''twelve'', ''thirteen'', ''fourteen'', ''fifteen'',
        ''sixteen'', ''seventeen''], Star (Cls [Space, One (CHR ''-'')]), Lit ''year'',
        Star (Cls [Space, One (CHR ''-'')]), Lit ''old'', Opt (Lit ''s'')],
      seqs [words [''sex'', ''sexual'', ''fuck'', ''screw'', ''bang'', ''sleep with'',
        ''have sex with'', ''want to'', ''attracted to'', ''touch'', ''kiss'', ''date'',
        ''relationship with''], Star Dot, words [''teen'', ''teenager'', ''adolescent'',
        ''youth'', ''minor'']],
      seqs [words [''sex'', ''sexual'', ''fuck'', ''screw'', ''bang'', ''sleep with'',
        ''have sex with'', ''want to'', ''attracted to'', ''touch'', ''kiss'', ''date'',
        ''relationship with''], Star Dot, alts [seqs [Lit ''under'', Star Dot, Lit ''1'',
        Cls [One (CHR ''8''), One (CHR ''9'')]], seqs [Lit ''below'', Star Dot, Lit ''1'',
        Cls [One (CHR ''8''), One (CHR ''9'')]], seqs [Lit ''younger'', Star Dot, Lit ''than'',
        Star Dot, Lit ''1'', Cls [One (CHR ''8''), One (CHR ''9'')]]]],
      seqs [words [''sex'', ''sexual'', ''fuck'', ''screw'', ''bang'', ''sleep with'',
        ''have sex with'', ''want to'', ''attracted to'', ''touch'', ''kiss'', ''date'',
        ''relationship with''], Star Dot, alts [seqs [Lit ''pre'', Star Dot, Lit ''teen''],
        Lit ''preteen'', seqs [Lit ''pre'', Star Dot, Lit ''pubescent''], Lit ''prepubescent'',
        Lit ''elementary'', seqs [Lit ''middle'', Star Dot, Lit ''school''],
        seqs [Lit ''junior'', Star Dot, Lit ''high'']]],
      seqs [words [''sex'', ''sexual'', ''fuck'', ''screw'', ''bang'', ''sleep with'',
        ''have sex with'', ''want to'', ''attracted to'', ''touch'', ''kiss'', ''date'',
        ''relationship with''], Star Dot, alts [seqs [Lit ''elementary'', Star Dot,
        Lit ''student''], seqs [Lit ''middle'', Star Dot, Lit ''school'', Star Dot,
        Lit ''student''], seqs [Lit ''junior'', Star Dot, Lit ''high'', Star Dot,
        Lit ''student''], seqs [Lit ''high'', Star Dot, Lit ''school'', Star Dot,
        Lit ''freshman''], seqs [Lit ''high'', Star Dot, Lit ''school'', Star Dot,
        Lit ''sophomore'']]],
      seqs [words [''sex'', ''sexual'', ''fuck'', ''screw'', ''bang'', ''sleep with'',
        ''have sex with'', ''want to'', ''attracted to'', ''touch'', ''kiss'', ''date'',
        ''relationship with''], Star Dot, alts [seqs [Lit ''just'', Star Dot, Lit ''turned'',
        Star Dot, Lit ''1'', Cls [One (CHR ''8''), One (CHR ''9'')]], seqs [Lit ''barely'',
        Star Dot, Lit ''1'', Cls [One (CHR ''8''), One (CHR ''9'')]], seqs [Lit ''young'',
        Star Dot, Lit ''1'', Cls [One (CHR ''8''), One (CHR ''9'')]]]]]"

definition ageExploitationPatterns :: "rx list" where
  "ageExploitationPatterns =
    [seqs [alts [Lit ''want'', Lit ''like'', Lit ''love'', Lit ''desire'',
        seqs [Lit ''attracted'', Star Dot, Lit ''to'']], Star Dot, alts [seqs [Lit ''1'',
        Cls [Range (CHR ''0'') (CHR ''7'')]], Cls [Range (CHR ''5'') (CHR ''9'')]],
        Star (Cls [Space, One (CHR ''-'')]), words [''year'', ''yr''], Star (Cls [Space,
        One (CHR ''-'')]), Lit ''old'', Opt (Lit ''s'')],
      seqs [alts [Lit ''want'', Lit ''like'', Lit ''love'', Lit ''desire'',
        seqs [Lit ''attracted'', Star Dot, Lit ''to'']], Star Dot, alts [seqs [Lit ''1'',
        Cls [Range (CHR ''0'') (CHR ''7'')]], Cls [Range (CHR ''5'') (CHR ''9'')]],
        Star (Cls [Space, One (CHR ''-'')]), Lit ''yo''],
      seqs [alts [Lit ''want'', Lit ''like'', Lit ''love'', Lit ''desire'',
        seqs [Lit ''attracted'', Star Dot, Lit ''to'']], Star Dot, alts [seqs [Lit ''1'',
        Cls [Range (CHR ''0'') (CHR ''7'')]], Cls [Range (CHR ''5'') (CHR ''9'')]],
        Star (Cls [Space, One (CHR ''-'')]), Lit ''y/o''],
      seqs [alts [Lit ''want'', Lit ''like'', Lit ''love'', Lit ''desire'',
        seqs [Lit ''attracted'', Star Dot, Lit ''to'']], Star Dot, alts [seqs [Lit ''1'',
        Cls [Range (CHR ''0'') (CHR ''7'')]], Cls [Range (CHR ''5'') (CHR ''9'')]],
        Star (Cls [Space, One (CHR ''-'')]), Lit ''yr'', Opt (Lit ''s''), WordB],
      seqs [alts [Lit ''want'', Lit ''like'', Lit ''love'', Lit ''desire'',
        seqs [Lit ''attracted'', Star Dot, Lit ''to'']], Star Dot, alts [seqs [Lit ''1'',
        Cls [Range (CHR ''0'') (CHR ''7'')]], Cls [Range (CHR ''5'') (CHR ''9'')]],
        Star (Cls [Space, One (CHR ''-'')]), Lit ''year'', Opt (Lit ''s''), Star (Cls [Space,
        One (CHR ''-'')]), Lit ''old'', Opt (Lit ''s'')],
      seqs [alts [Lit ''want'', Lit ''like'', Lit ''love'', Lit ''desire'',
        seqs [Lit ''attracted'', Star Dot, Lit ''to'']], Star Dot, alts [seqs [Lit ''1'',
        Cls [Range (CHR ''0'') (CHR ''7'')]], Cls [Range (CHR ''5'') (CHR ''9'')]],
        Star (Cls [Space, One (CHR ''-'')]), Lit ''year'', Star (Cls [Space, One (CHR ''-'')]),
        Lit ''old'', Opt (Lit ''s'')],
      seqs [alts [Lit ''want'', Lit ''like'', Lit ''love'', Lit ''desire'',
        seqs [Lit ''attracted'', Star Dot, Lit ''to'']], Star Dot, WordB,
        alts [seqs [Lit ''1'', Cls [Range (CHR ''0'') (CHR ''7'')]],
        Cls [Range (CHR ''5'') (CHR ''9'')]], WordB],
      seqs [Lit ''find'', Star Dot, alts [seqs [Lit ''1'',
        Cls [Range (CHR ''0'') (CHR ''7'')]], Cls [Range (CHR ''5'') (CHR ''9'')]],
        Star (Cls [Space, One (CHR ''-'')]), words [''year'', ''yr''], Star (Cls [Space,
        One (CHR ''-'')]), Lit ''old'', Opt (Lit ''s''), Star Dot, Lit ''attractive''],
      seqs [Lit ''find'', Star Dot, alts [seqs [Lit ''1'',
        Cls [Range (CHR ''0'') (CHR ''7'')]], Cls [Range (CHR ''5'') (CHR ''9'')]],
        Star (Cls [Space, One (CHR ''-'')]), Lit ''yo'', Star Dot, Lit ''attractive''],
      seqs [Lit ''find'', Star Dot, alts [seqs [Lit ''1'',
        Cls [Range (CHR ''0'') (CHR ''7'')]], Cls [Range (CHR ''5'') (CHR ''9'')]],
        Star (Cls [Space, One (CHR ''-'')]), Lit ''y/o'', Star Dot, Lit ''attractive''],
      seqs [Lit ''find'', Star Dot, alts [seqs [Lit ''1'',
        Cls [Range (CHR ''0'') (CHR ''7'')]], Cls [Range (CHR ''5'') (CHR ''9'')]],
        Star (Cls [Space, One (CHR ''-'')]), Lit ''yr'', Opt (Lit ''s''), WordB, Star Dot,
        Lit ''attractive''],
      seqs [Lit ''find'', Star Dot, alts [seqs [Lit ''1'',
        Cls [Range (CHR ''0'') (CHR ''7'')]], Cls [Range (CHR ''5'') (CHR ''9'')]],
        Star (Cls [Space, One (CHR ''-'')]), Lit ''year'', Opt (Lit ''s''), Star (Cls [Space,
        One (CHR ''-'')]), Lit ''old'', Opt (Lit ''s''), Star Dot, Lit ''attractive''],
      seqs [Lit ''find'', Star Dot, alts [seqs [Lit ''1'',
        Cls [Range (CHR ''0'') (CHR ''7'')]], Cls [Range (CHR ''5'') (CHR ''9'')]],
        Star (Cls [Space, One (CHR ''-'')]), Lit ''year'', Star (Cls [Space, One (CHR ''-'')]),
        Lit ''old'', Opt (Lit ''s''), Star Dot, Lit ''attractive''],
      seqs [Lit ''find'', Star Dot, WordB, alts [seqs [Lit ''1'',
        Cls [Range (CHR ''0'') (CHR ''7'')]], Cls [Range (CHR ''5'') (CHR ''9'')]], WordB,
        Star Dot, Lit ''attractive''],
      seqs [alts [Lit ''want'', Lit ''like'', Lit ''love'', Lit ''desire'', seqs [Lit ''find'',
        Star Dot, Lit ''attractive''], seqs [Lit ''attracted'', Star Dot, Lit ''to'']],
        Star Dot, words [''five'', ''six'', ''seven'', ''eight'', ''nine'', ''ten'',
        ''eleven'', ''twelve'', ''thirteen'', ''fourteen'', ''fifteen'', ''sixteen'',
        ''seventeen''], Star (Cls [Space, One (CHR ''-'')]), words [''year'', ''yr''],
        Star (Cls [Space, One (CHR ''-'')]), Lit ''old'', Opt (Lit ''s'')],
      seqs [alts [Lit ''want'', Lit ''like'', Lit ''love'', Lit ''desire'', seqs [Lit ''find'',
        Star Dot, Lit ''attractive''], seqs [Lit ''attracted'', Star Dot, Lit ''to'']],
        Star Dot, words [''five'', ''six'', ''seven'', ''eight'', ''nine'', ''ten'',
        ''eleven'', ''twelve'', ''thirteen'', ''fourteen'', ''fifteen'', ''sixteen'',
        ''seventeen''], Star (Cls [Space, One (CHR ''-'')]), Lit ''yo''],
      seqs [alts [Lit ''want'', Lit ''like'', Lit ''love'', Lit ''desire'', seqs [Lit ''find'',
        Star Dot, Lit ''attractive''], seqs [Lit ''attracted'', Star Dot, Lit ''to'']],
        Star Dot, words [''five'', ''six'', ''seven'', ''eight'', ''nine'', ''ten'',
        ''eleven'', ''twelve'', ''thirteen'', ''fourteen'', ''fifteen'', ''sixteen'',
        ''seventeen''], Star (Cls [Space, One (CHR ''-'')]), Lit ''year'', Star (Cls [Space,
        One (CHR ''-'')]), Lit ''old'', Opt (Lit ''s'')],
      seqs [alts [Lit ''want'', Lit ''like'', Lit ''love'', Lit ''desire'',
        seqs [Lit ''attracted'', Star Dot, Lit ''to'']], Star Dot, words [''five'', ''six'',
        ''seven'', ''eight'', ''nine'', ''ten'', ''eleven'', ''twelve'', ''thirteen'',
        ''fourteen'', ''fifteen'', ''sixteen'', ''seventeen''], Cls [One (CHR ''-'')],
        Lit ''year'', Cls [One (CHR ''-'')], Lit ''old'', Opt (Lit ''s'')],
      seqs [Lit ''find'', Star Dot, words [''five'', ''six'', ''seven'', ''eight'', ''nine'',
        ''ten'', ''eleven'', ''twelve'', ''thirteen'', ''fourteen'', ''fifteen'', ''sixteen'',
        ''seventeen''], Cls [One (CHR ''-'')], Lit ''year'', Cls [One (CHR ''-'')],
        Lit ''old'', Opt (Lit ''s''), Star Dot, Lit ''attractive''],
      seqs [alts [Lit ''want'', Lit ''like'', Lit ''love'', Lit ''desire'', seqs [Lit ''find'',
        Star Dot, Lit ''attractive''], seqs [Lit ''attracted'', Star Dot, Lit ''to'']],
        Star Dot, Lit ''pre'', Star Dot, Lit ''teen'', Opt (Lit ''s'')],
      seqs [alts [Lit ''want'', Lit ''like'', Lit ''love'', Lit ''desire'', seqs [Lit ''find'',
        Star Dot, Lit ''attractive''], seqs [Lit ''attracted'', Star Dot, Lit ''to'']],
        Star Dot, Lit ''preteen''],
      seqs [alts [Lit ''want'', Lit ''like'', Lit ''love'', Lit ''desire'', seqs [Lit ''find'',
        Star Dot, Lit ''attractive''], seqs [Lit ''attracted'', Star Dot, Lit ''to'']],
        Star Dot, Lit ''middle'', Star Dot, Lit ''school''],
      seqs [alts [Lit ''want'', Lit ''like'', Lit ''love'', Lit ''desire'', seqs [Lit ''find'',
        Star Dot, Lit ''attractive''], seqs [Lit ''attracted'', Star Dot, Lit ''to'']],
        Star Dot, Lit ''junior'', Star Dot, Lit ''high''],
      seqs [alts [Lit ''want'', Lit ''like'', Lit ''love'', Lit ''desire'', seqs [Lit ''find'',
        Star Dot, Lit ''attractive''], seqs [Lit ''attracted'', Star Dot, Lit ''to'']],
        Star Dot, Lit ''elementary''],
      seqs [Lit ''like'', Star Dot, Lit ''junior'', Star Dot, Lit ''high'', Star Dot,
        Lit ''school'', Star Dot, alts [seqs [Lit ''girl'', Opt (Lit ''s'')],
        seqs [Lit ''boy'', Opt (Lit ''s'')], seqs [Lit ''student'', Opt (Lit ''s'')]]],
      seqs [Lit ''find'', Star Dot, Lit ''middle'', Star Dot, Lit ''school'', Star Dot,
        alts [seqs [Lit ''girl'', Opt (Lit ''s'')], seqs [Lit ''boy'', Opt (Lit ''s'')],
        seqs [Lit ''student'', Opt (Lit ''s'')]], Star Dot, Lit ''attractive''],
      seqs [Lit ''attracted'', Star Dot, Lit ''elementary'', Star Dot,
        alts [seqs [Lit ''girl'', Opt (Lit ''s'')], seqs [Lit ''boy'', Opt (Lit ''s'')],
        seqs [Lit ''student'', Opt (Lit ''s'')]]],
      seqs [alts [Lit ''want'', Lit ''like'', Lit ''love'', Lit ''desire'', seqs [Lit ''find'',
        Star Dot, Lit ''attractive''], seqs [Lit ''attracted'', Star Dot, Lit ''to'']],
        Star Dot, Lit ''young'', Star Dot, alts [seqs [Lit ''girl'', Opt (Lit ''s'')],
        seqs [Lit ''boy'', Opt (Lit ''s'')]]],
      seqs [alts [Lit ''want'', Lit ''like'', Lit ''love'', Lit ''desire'', seqs [Lit ''find'',
        Star Dot, Lit ''attractive''], seqs [Lit ''attracted'', Star Dot, Lit ''to'']],
        Star Dot, alts [seqs [Lit ''girl'', Opt (Lit ''s'')], seqs [Lit ''boy'',
        Opt (Lit ''s'')]], Star Dot, Lit ''under'', Star Dot, Lit ''1'', Cls [One (CHR ''8''),
        One (CHR ''9'')]],
      seqs [alts [Lit ''want'', Lit ''like'', Lit ''love'', Lit ''desire'', seqs [Lit ''find'',
        Star Dot, Lit ''attractive''], seqs [Lit ''attracted'', Star Dot, Lit ''to'']],
        Star Dot, words [''neighbor'', ''friend'', ''classmate'', ''student''], Star Dot,
        alts [seqs [Lit ''1'', Cls [Range (CHR ''0'') (CHR ''7'')]],
        Cls [Range (CHR ''5'') (CHR ''9'')]]],
      seqs [alts [Lit ''want'', Lit ''like'', Lit ''love'', Lit ''desire'', seqs [Lit ''find'',
        Star Dot, Lit ''attractive''], seqs [Lit ''attracted'', Star Dot, Lit ''to'']],
        Star Dot, Lit ''my'', Star Dot, alts [seqs [Lit ''1'',
        Cls [Range (CHR ''0'') (CHR ''7'')]], Cls [Range (CHR ''5'') (CHR ''9'')]],
        Star (Cls [Space, One (CHR ''-'')]), alts [Lit ''yo'', Lit ''y/o'', seqs [Lit ''year'',
        Star (Cls [Space, One (CHR ''-'')]), Lit ''old'']]]]"

definition allPatterns_child :: "rx list" where
  "allPatterns_child =
     groomingPatterns @
     exploitationPatterns @
     euphemisticPatterns @
     onlinePredatorPatterns @
     supervisionBypassPatterns @
     ageTargetingPatterns @
     sexualExploitationAgePatterns @
     ageExploitationPatterns"

definition criticalKeywords :: "string list" where
  "criticalKeywords =
     [''groom'', ''molest'', ''pedophile'', ''loli'', ''shota'', ''cp'', ''csam'',
       ''child porn'', ''kiddie'', ''preteen'', ''jailbait'', ''underage'']"

definition checkChildSafetyIntent :: "string \<Rightarrow> string \<Rightarrow> IntentCheck" where
  "checkChildSafetyIntent messageLower originalMessage =
     (if anyMatch allPatterns_child messageLower
      then violation ''Content endangering child safety - prohibited contact or exploitation''
             (95 / 100)
      else if list_ex (\<lambda>keyword. includesStr messageLower keyword) criticalKeywords
      then violation ''Content endangering child safety - prohibited terminology'' (98 / 100)
      else noViolation)"

subsection \<open>Illegal activities\<close>

definition drugManufacturingPatterns :: "rx list" where
  "drugManufacturingPatterns =
    [seqs [Lit ''how to '', words [''make'', ''cook'', ''manufacture''], Star Dot,
        words [''meth'', ''cocaine'', ''heroin'', ''fentanyl'']],
      seqs [Lit ''teach me'', Star Dot, Lit ''drug'', Star Dot, Lit ''production''],
      seqs [Lit ''instructions'', Star Dot, Lit ''illegal'', Star Dot, Lit ''drugs''],
      seqs [Lit ''help me'', Star Dot, Lit ''synthesize'']]"

definition fraudPatterns :: "rx list" where
  "fraudPatterns =
    [seqs [Lit ''how to'', Star Dot, Lit ''steal'', Star Dot, Lit ''identity''],
      seqs [Lit ''teach me'', Star Dot, Lit ''credit card'', Star Dot, Lit ''fraud''],
      seqs [Lit ''help me'', Star Dot, Lit ''scam'', Star Dot, Lit ''people''],
      seqs [Lit ''instructions'', Star Dot, Lit ''fake'', Star Dot, Lit ''documents''],
      seqs [Lit ''ways to'', Star Dot, Lit ''launder'', Star Dot, Lit ''money'']]"

definition hackingPatterns :: "rx list" where
  "hackingPatterns =
    [seqs [Lit ''how to'', Star Dot, Lit ''hack'', Star Dot, Lit ''into''],
      seqs [Lit ''teach me'', Star Dot, Lit ''break'', Star Dot, Lit ''into'', Star Dot,
        Lit ''system''],
      seqs [Lit ''help me'', Star Dot, Lit ''steal'', Star Dot, Lit ''data''],
      seqs [Lit ''instructions'', Star Dot, Lit ''unauthorized'', Star Dot, Lit ''access''],
      seqs [Lit ''ways to'', Star Dot, Lit ''bypass'', Star Dot, Lit ''security'']]"

definition checkIllegalActivitiesIntent :: "string \<Rightarrow> string \<Rightarrow> IntentCheck" where
  "checkIllegalActivitiesIntent messageLower originalMessage =
     (if anyMatch drugManufacturingPatterns messageLower
      then violation ''Instructions for illegal drug manufacturing'' (95 / 100)
      else if anyMatch fraudPatterns messageLower
      then violation ''Instructions for fraud or financial crimes'' (95 / 100)
      else if anyMatch hackingPatterns messageLower
      then violation ''Instructions for hacking or unauthorized access'' (90 / 100)
      else noViolation)"

subsection \<open>Privacy violations\<close>

definition doxxingPatterns :: "rx list" where
  "doxxingPatterns =
    [seqs [Lit ''help me'', Star Dot, Lit ''find'', Star Dot, Lit ''personal'', Star Dot,
        Lit ''information''],
      seqs [Lit ''how to'', Star Dot, Lit ''doxx'', Star Dot, Lit ''someone''],
      seqs [Lit ''teach me'', Star Dot, Lit ''stalk''],
      seqs [Lit ''ways to'', Star Dot, Lit ''track'', Star Dot, Lit ''person''],
      seqs [Lit ''find'', Star Dot, Lit ''someone's'', Star Dot, Lit ''address'']]"

definition surveillancePatterns :: "rx list" where
  "surveillancePatterns =
    [seqs [Lit ''how to'', Star Dot, Lit ''spy'', Star Dot, Lit ''on''],
      seqs [Lit ''teach me'', Star Dot, Lit ''monitor'', Star Dot, Lit ''someone''],
      seqs [Lit ''help me'', Star Dot, Lit ''watch'', Star Dot, Lit ''without'', Star Dot,
        Lit ''permission''],
      seqs [Lit ''instructions'', Star Dot, Lit ''track'', Star Dot, Lit ''location'']]"

definition checkPrivacyViolationsIntent :: "string \<Rightarrow> string \<Rightarrow> IntentCheck" where
  "checkPrivacyViolationsIntent messageLower originalMessage =
     (if anyMatch doxxingPatterns messageLower
      then violation ''Instructions for doxxing or privacy violations'' (95 / 100)
      else if anyMatch surveillancePatterns messageLower
      then violation ''Instructions for unauthorized surveillance'' (90 / 100)
      else noViolation)"

subsection \<open>Hate speech and harassment\<close>

text \<open>The table \<open>dehumanizingPatterns\<close> of the source is declared and never tested.\<close>

definition harassmentPatterns :: "rx list" where
  "harassmentPatterns =
    [seqs [Lit ''how to'', Star Dot, Lit ''bully''],
      seqs [Lit ''teach me'', Star Dot, Lit ''harass''],
      seqs [Lit ''help me'', Star Dot, Lit ''intimidate''],
      seqs [Lit ''ways to'', Star Dot, Lit ''threaten''],
      seqs [Lit ''instructions'', Star Dot, Lit ''make'', Star Dot, Lit ''afraid'']]"

definition organizedHarassmentPatterns :: "rx list" where
  "organizedHarassmentPatterns =
    [seqs [Lit ''help me'', Star Dot, Lit ''organize'', Star Dot, Lit ''campaign'', Star Dot,
        Lit ''against''],
      seqs [Lit ''coordinate'', Star Dot, Lit ''harassment''],
      seqs [Lit ''plan'', Star Dot, Lit ''attack'', Star Dot, Lit ''on'', Star Dot,
        Lit ''group'']]"

definition dehumanizingPatterns :: "rx list" where
  "dehumanizingPatterns =
    [seqs [Lit ''all'', Star Dot, Lit ''[group]'', Star Dot, Lit ''are'', Star Dot,
        Lit ''[slur]''],
      seqs [Lit ''[group]'', Star Dot, Lit ''don't'', Star Dot, Lit ''deserve''],
      seqs [Lit ''we should'', Star Dot, Lit ''eliminate'', Star Dot, Lit ''[group]'']]"

definition checkHateSpeechIntent :: "string \<Rightarrow> string \<Rightarrow> IntentCheck" where
  "checkHateSpeechIntent messageLower originalMessage =
     (if anyMatch harassmentPatterns messageLower
      then violation ''Instructions for harassment or bullying'' (95 / 100)
      else if anyMatch organizedHarassmentPatterns messageLower
      then violation ''Organizing harassment campaigns'' (90 / 100)
      else noViolation)"

subsection \<open>Adult content\<close>

definition pornographyPatterns :: "rx list" where
  "pornographyPatterns =
    [seqs [Lit ''generate'', Star Dot, Lit ''porn''],
      seqs [Lit ''create'', Star Dot, Lit ''porn''],
      seqs [Lit ''make'', Star Dot, Lit ''porn''],
      seqs [Lit ''write'', Star Dot, Lit ''porn''],
      seqs [Lit ''show'', Star Dot, Lit ''me'', Star Dot, Lit ''porn''],
      seqs [Lit ''give'', Star Dot, Lit ''me'', Star Dot, Lit ''porn''],
      seqs [Lit ''find'', Star Dot, Lit ''porn''],
      Lit ''pornographic'',
      seqs [Lit ''explicit'', Star Dot, Lit ''sexual''],
      seqs [Lit ''sexual'', Star Dot, Lit ''explicit''],
      seqs [Lit ''nude'', Star Dot, Lit ''photo''],
      seqs [Lit ''naked'', Star Dot, Lit ''photo''],
      seqs [Lit ''dick'', Star Dot, Lit ''pic''],
      seqs [Lit ''pussy'', Star Dot, Lit ''pic''],
      seqs [Lit ''send'', Star Dot, Lit ''nudes''],
      seqs [Lit ''share'', Star Dot, Lit ''nudes'']]"

definition sexualRoleplayPatterns :: "rx list" where
  "sexualRoleplayPatterns =
    [seqs [Lit ''roleplay'', Star Dot, Lit ''sex''],
      seqs [Lit ''sexual'', Star Dot, Lit ''roleplay''],
      seqs [Lit ''pretend'', Star Dot, Lit ''we'', Star Dot, Lit ''are'', Star Dot,
        Lit ''having'', Star Dot, Lit ''sex''],
      seqs [Lit ''act'', Star Dot, Lit ''like'', Star Dot, Lit ''we'', Star Dot, Lit ''are'',
        Star Dot, Lit ''having'', Star Dot, Lit ''sex''],
      seqs [Lit ''simulate'', Star Dot, Lit ''sex''],
      seqs [Lit ''write'', Star Dot, Lit ''sexual'', Star Dot, Lit ''scenario''],
      seqs [Lit ''describe'', Star Dot, Lit ''sexual'', Star Dot, Lit ''act''],
      seqs [Lit ''generate'', Star Dot, Lit ''sexual'', Star Dot, Lit ''content''],
      seqs [Lit ''erotic'', Star Dot, Lit ''story''],
      seqs [Lit ''sexual'', Star Dot, Lit ''fantasy''],
      seqs [Lit ''masturbation'', Star Dot, Lit ''story''],
      seqs [Lit ''orgasm'', Star Dot, Lit ''story'']]"

definition explicitSexualRequests :: "rx list" where
  "explicitSexualRequests =
    [seqs [Lit ''how'', Star Dot, Lit ''to'', Star Dot, Lit ''have'', Star Dot, Lit ''sex''],
      seqs [Lit ''teach'', Star Dot, Lit ''me'', Star Dot, Lit ''sex''],
      seqs [Lit ''show'', Star Dot, Lit ''me'', Star Dot, Lit ''how'', Star Dot, Lit ''to'',
        Star Dot, Lit ''fuck''],
      seqs [Lit ''describe'', Star Dot, Lit ''fucking''],
      seqs [Lit ''tell'', Star Dot, Lit ''me'', Star Dot, Lit ''about'', Star Dot,
        Lit ''fucking''],
      seqs [Lit ''what'', Star Dot, Lit ''does'', Star Dot, Lit ''sex'', Star Dot,
        Lit ''feel'', Star Dot, Lit ''like''],
      seqs [Lit ''describe'', Star Dot, Lit ''orgasm''],
      seqs [Lit ''tell'', Star Dot, Lit ''me'', Star Dot, Lit ''about'', Star Dot,
        Lit ''masturbation''],
      seqs [Lit ''how'', Star Dot, Lit ''to'', Star Dot, Lit ''masturbate''],
      seqs [Lit ''sexual'', Star Dot, Lit ''positions''],
      seqs [Lit ''describe'', Star Dot, Lit ''sexual'', Star Dot, Lit ''pleasure'']]"

definition adultEntertainmentPatterns :: "rx list" where
  "adultEntertainmentPatterns =
    [seqs [Lit ''adult'', Star Dot, Lit ''entertainment''],
      seqs [Lit ''nsfw'', Star Dot, Lit ''content''],
      seqs [Lit ''adult'', Star Dot, Lit ''video''],
      seqs [Lit ''sex'', Star Dot, Lit ''video''],
      seqs [Lit ''porn'', Star Dot, Lit ''video''],
      seqs [Lit ''adult'', Star Dot, Lit ''website''],
      seqs [Lit ''sex'', Star Dot, Lit ''site''],
      seqs [Lit ''porn'', Star Dot, Lit ''site''],
      seqs [Lit ''adult'', Star Dot, Lit ''material''],
      seqs [Lit ''sexual'', Star Dot, Lit ''material''],
      seqs [Lit ''xxx'', Star Dot, Lit ''content''],
      seqs [Lit ''adult'', Star Dot, Lit ''only'']]"

definition euphemisticSexualPatterns :: "rx list" where
  "euphemisticSexualPatterns =
    [seqs [Lit ''intimate'', Star Dot, Lit ''stories''],
      seqs [Lit ''steamy'', Star Dot, Lit ''stories''],
      seqs [Lit ''spicy'', Star Dot, Lit ''content''],
      seqs [Lit ''adult'', Star Dot, Lit ''stories''],
      seqs [Lit ''romantic'', Star Dot, Lit ''encounters'', Star Dot, Lit ''sexual''],
      seqs [Lit ''sensual'', Star Dot, Lit ''stories''],
      seqs [Lit ''passionate'', Star Dot, Lit ''stories''],
      seqs [Lit ''bedroom'', Star Dot, Lit ''activities''],
      seqs [Lit ''private'', Star Dot, Lit ''moments'', Star Dot, Lit ''sexual''],
      seqs [Lit ''adult'', Star Dot, Lit ''roleplay''],
      seqs [words [''teach me'', ''show me'', ''help me''], Star Dot, words [''seduce'',
        ''pleasure'', ''satisfy''], Star Dot, Lit ''sexually''],
      seqs [Lit ''sexual'', Star Dot, Lit ''techniques''],
      seqs [Lit ''intimate'', Star Dot, Lit ''techniques''],
      seqs [Lit ''bedroom'', Star Dot, Lit ''skills''],
      seqs [words [''make me'', ''help me feel''], Lit '' '', words [''turned on'',
        ''aroused'', ''sexually excited'']],
      seqs [Lit ''sexual'', Star Dot, Lit ''education'', Star Dot, Lit ''explicit''],
      seqs [Lit ''sex'', Star Dot, Lit ''education'', Star Dot, Lit ''graphic''],
      seqs [Lit ''mature'', Star Dot, Lit ''content'', Star Dot, Lit ''sexual''],
      seqs [Lit ''erotic'', Star Dot, Lit ''content'']]"

definition allPatterns_adult :: "rx list" where
  "allPatterns_adult =
     pornographyPatterns @
     sexualRoleplayPatterns @
     explicitSexualRequests @
     adultEntertainmentPatterns @
     euphemisticSexualPatterns"

definition explicitKeywords :: "string list" where
  "explicitKeywords =
     [''porn'', ''porno'', ''pornography'', ''xxx'', ''nsfw'', ''nude'', ''naked'', ''dick'',
       ''cock'', ''pussy'', ''vagina'', ''penis'', ''tits'', ''boobs'', ''ass'', ''anal'',
       ''blowjob'', ''handjob'', ''cumshot'', ''orgasm'', ''masturbate'', ''jerk off'',
       ''finger'', ''dildo'', ''vibrator'']"

definition inappropriateContextKeywords :: "string list" where
  "inappropriateContextKeywords =
     [''sexy'', ''horny'', ''aroused'', ''turned on'', ''wet'', ''hard'', ''erect'', ''climax'']"

definition sexualContext :: "string list" where
  "sexualContext =
     [''show me'', ''give me'', ''want to see'', ''generate'', ''create'', ''make me'',
       ''describe'', ''tell me about'', ''roleplay'', ''pretend'', ''simulate'']"

definition sexualCombinations :: "string list" where
  "sexualCombinations =
     [''make me'', ''get me'', ''help me get'', ''want to be'', ''feeling'', ''getting'']"

text \<open>
  The two keyword loops return at the first keyword that is in the message when some
  context phrase is in it too.
\<close>

definition checkAdultContentIntent :: "string \<Rightarrow> string \<Rightarrow> IntentCheck" where
  "checkAdultContentIntent messageLower originalMessage =
     (if anyMatch allPatterns_adult messageLower
      then violation ''Adult/sexual content request'' (90 / 100)
      else if list_ex (\<lambda>keyword. includesStr messageLower keyword \<and>
                  list_ex (\<lambda>context. includesStr messageLower context) sexualContext)
                explicitKeywords
      then violation ''Explicit sexual content request with inappropriate context'' (95 / 100)
      else if list_ex (\<lambda>keyword. includesStr messageLower keyword \<and>
                  list_ex (\<lambda>combo. includesStr messageLower combo) sexualCombinations)
                inappropriateContextKeywords
      then violation ''Sexual content with inappropriate context'' (85 / 100)
      else noViolation)"

subsection \<open>The verdict\<close>

definition createViolationResult :: "string \<Rightarrow> string \<Rightarrow> rat \<Rightarrow> SafetyCheckResult" where
  "createViolationResult vtype why conf =
     \<lparr>isAllowed = False, violationType = Some vtype, reason = Some why, confidence = conf,
      radioSilence = True\<rparr>"

text \<open>\<open>check.reason || fallback\<close>: the fallback stands in for a missing or empty reason.\<close>

definition reasonOr :: "IntentCheck \<Rightarrow> string \<Rightarrow> string" where
  "reasonOr check fallback =
     (case checkReason check of None \<Rightarrow> fallback | Some r \<Rightarrow> if r = [] then fallback else r)"

text \<open>
  The calls of the logger are left out: they return nothing, and nothing of the verdict
  is read from them (the session id goes only there).
\<close>

definition checkContent :: "SafetyContext \<Rightarrow> SafetyCheckResult" where
  "checkContent context =
     (let messageLower = toLowerCase (userMessage context);
          violenceCheck = checkViolenceIntent messageLower (userMessage context)
      in if isViolation violenceCheck
         then createViolationResult ''violence''
                (reasonOr violenceCheck ''Violence-related content detected'')
                (checkConfidence violenceCheck)
         else
           let selfHarmCheck = checkSelfHarmIntent messageLower (userMessage context)
           in if isViolation selfHarmCheck
              then createViolationResult ''self-harm''
                     (reasonOr selfHarmCheck ''Self-harm content detected'')
                     (checkConfidence selfHarmCheck)
              else
                let childSafetyCheck = checkChildSafetyIntent messageLower (userMessage context)
                in if isViolation childSafetyCheck
                   then createViolationResult ''child-safety''
                          (reasonOr childSafetyCheck ''Child safety violation detected'')
                          (checkConfidence childSafetyCheck)
                   else
                     let illegalActivitiesCheck =
                           checkIllegalActivitiesIntent messageLower (userMessage context)
                     in if isViolation illegalActivitiesCheck
                        then createViolationResult ''illegal-activities''
                               (reasonOr illegalActivitiesCheck ''Illegal activities content detected'')
                               (checkConfidence illegalActivitiesCheck)
                        else
                          let privacyViolationsCheck =
                                checkPrivacyViolationsIntent messageLower (userMessage context)
                          in if isViolation privacyViolationsCheck
                             then createViolationResult ''privacy-violations''
                                    (reasonOr privacyViolationsCheck ''Privacy violation detected'')
                                    (checkConfidence privacyViolationsCheck)
                             else
                               let hateSpeechCheck =
                                     checkHateSpeechIntent messageLower (userMessage context)
                               in if isViolation hateSpeechCheck
                                  then createViolationResult ''hate-speech''
                                         (reasonOr hateSpeechCheck ''Hate speech detected'')
                                         (checkConfidence hateSpeechCheck)
                                  else
                                    let adultContentCheck =
                                          checkAdultContentIntent messageLower (userMessage context)
                                    in if isViolation adultContentCheck
                                       then createViolationResult ''adult-content''
                                              (reasonOr adultContentCheck ''Adult content detected'')
                                              (checkConfidence adultContentCheck)
                                       else \<lparr>isAllowed = True, violationType = None, reason = None,
                                              confidence = 95 / 100, radioSilence = False\<rparr>)"

section \<open>Properties of the matcher\<close>

text \<open>
  What the matcher hands to its continuation: a state over the same text, further to
  the right, whose capture is the old one or a piece of the text.
\<close>

definition whole :: "mstate \<Rightarrow> string" where
  "whole s = rev (prev s) @ rest s"

definition reach :: "mstate \<Rightarrow> mstate \<Rightarrow> bool" where
  "reach s s' \<longleftrightarrow>
     whole s' = whole s \<and> suffix (rest s') (rest s) \<and>
     (cap s' = cap s \<or> (\<exists>g. cap s' = Some g \<and> sublist g (whole s)))"

lemma reach_refl: "reach s s"
  by (simp add: reach_def)

lemma reach_trans: "reach s s' \<Longrightarrow> reach s' s'' \<Longrightarrow> reach s s''"
  unfolding reach_def by (metis suffix_order.trans)

lemma reach_advance:
  "rest s = c # cs \<Longrightarrow> reach s (s\<lparr>prev := c # prev s, rest := cs\<rparr>)"
  by (simp add: reach_def whole_def suffix_ConsI)

lemma matchLit_reach: "matchLit ic w s = Some s' \<Longrightarrow> reach s s'"
proof (induction w arbitrary: s)
  case Nil
  then show ?case by (simp add: reach_refl)
next
  case (Cons p ps)
  then obtain c cs where r: "rest s = c # cs"
    by (cases "rest s") auto
  with Cons.prems have "matchLit ic ps (s\<lparr>prev := c # prev s, rest := cs\<rparr>) = Some s'"
    by (simp split: if_splits)
  then have "reach (s\<lparr>prev := c # prev s, rest := cs\<rparr>) s'" by (rule Cons.IH)
  with reach_advance[OF r] show ?case by (rule reach_trans)
qed

lemma step1_reach:
  "step1 P k s = Some t \<Longrightarrow> \<exists>s'. reach s s' \<and> k s' = Some t"
  unfolding step1_def
  by (cases "rest s") (auto split: if_splits intro: reach_advance)

lemma greedy_reach:
  assumes f: "\<And>k s t. f k s = Some t \<Longrightarrow> \<exists>s'. reach s s' \<and> k s' = Some t"
  shows "greedy n f k s = Some t \<Longrightarrow> \<exists>s'. reach s s' \<and> k s' = Some t"
proof (induction n arbitrary: s)
  case 0
  then show ?case by (auto intro: reach_refl)
next
  case (Suc n)
  let ?k = "\<lambda>s'. if length (rest s') < length (rest s) then greedy n f k s' else None"
  show ?case
  proof (cases "f ?k s")
    case None
    with Suc.prems have "k s = Some t" by simp
    then show ?thesis by (auto intro: reach_refl)
  next
    case (Some r)
    with Suc.prems have "f ?k s = Some t" by simp
    from f[OF this] obtain s1 where s1: "reach s s1" and k1: "?k s1 = Some t" by blast
    then have "greedy n f k s1 = Some t" by (simp split: if_splits)
    from Suc.IH[OF this] obtain s2 where "reach s1 s2" "k s2 = Some t" by blast
    with s1 show ?thesis by (blast intro: reach_trans)
  qed
qed

lemma lazy_reach:
  assumes f: "\<And>k s t. f k s = Some t \<Longrightarrow> \<exists>s'. reach s s' \<and> k s' = Some t"
  shows "lazy n f k s = Some t \<Longrightarrow> \<exists>s'. reach s s' \<and> k s' = Some t"
proof (induction n arbitrary: s)
  case 0
  then show ?case by (auto intro: reach_refl)
next
  case (Suc n)
  let ?k = "\<lambda>s'. if length (rest s') < length (rest s) then lazy n f k s' else None"
  show ?case
  proof (cases "k s")
    case (Some r)
    with Suc.prems have "k s = Some t" by simp
    then show ?thesis by (auto intro: reach_refl)
  next
    case None
    with Suc.prems have "f ?k s = Some t" by simp
    from f[OF this] obtain s1 where s1: "reach s s1" and k1: "?k s1 = Some t" by blast
    then have "lazy n f k s1 = Some t" by (simp split: if_splits)
    from Suc.IH[OF this] obtain s2 where "reach s1 s2" "k s2 = Some t" by blast
    with s1 show ?thesis by (blast intro: reach_trans)
  qed
qed

lemma reach_capture:
  assumes "reach s s'"
  shows "reach s (s'\<lparr>cap := Some (take (length (rest s) - length (rest s')) (rest s))\<rparr>)"
proof -
  have "sublist (take (length (rest s) - length (rest s')) (rest s)) (whole s)"
    unfolding whole_def
    by (metis append_take_drop_id sublist_appendI sublist_append_rightI sublist_order.order.trans sublist_order.order_refl prefix_imp_sublist take_is_prefix)
  with assms show ?thesis
    by (simp add: reach_def whole_def)
qed

lemma m_reach: "m r ic k s = Some t \<Longrightarrow> \<exists>s'. reach s s' \<and> k s' = Some t"
proof (induction r arbitrary: k s t)
  case Eps
  then show ?case by (auto intro: reach_refl)
next
  case (Lit w)
  then show ?case by (auto split: option.splits dest: matchLit_reach)
next
  case (Cls items)
  then show ?case by (auto dest: step1_reach)
next
  case Dot
  then show ?case by (auto dest: step1_reach)
next
  case (Seq a b)
  from Seq.prems have "m a ic (m b ic k) s = Some t" by simp
  from Seq.IH(1)[OF this] obtain s1 where s1: "reach s s1" and "m b ic k s1 = Some t" by blast
  from Seq.IH(2)[OF this(2)] obtain s2 where "reach s1 s2" "k s2 = Some t" by blast
  with s1 show ?case by (blast intro: reach_trans)
next
  case (Alt a b)
  then show ?case by (auto split: option.splits)
next
  case (Star a)
  then show ?case using greedy_reach[of "m a ic"] by simp
next
  case (Lazy a)
  then show ?case using lazy_reach[of "m a ic"] by simp
next
  case (Grp a)
  from Grp.prems Grp.IH obtain s1 where s1: "reach s s1"
    and k1: "k (s1\<lparr>cap := Some (take (length (rest s) - length (rest s1)) (rest s))\<rparr>) = Some t"
    by fastforce
  with reach_capture[OF s1] show ?case by blast
next
  case WordB
  then show ?case by (auto split: if_splits intro: reach_refl)
next
  case Bol
  then show ?case by (auto split: if_splits intro: reach_refl)
next
  case Eol
  then show ?case by (auto split: if_splits intro: reach_refl)
qed

lemma m_None:
  "(\<And>s'. reach s s' \<Longrightarrow> k s' = None) \<Longrightarrow> m r ic k s = None"
  by (metis m_reach not_Some_eq)

text \<open>
  A syntactic test: can the expression match a text made of characters of \<open>A\<close> only?
  \<open>False\<close> says it cannot, because a literal it has to match has a character outside
  \<open>A\<close>; \<open>True\<close> says nothing.
\<close>

fun mayMatchOnly :: "(char \<Rightarrow> bool) \<Rightarrow> rx \<Rightarrow> bool" where
  "mayMatchOnly A Eps = True"
| "mayMatchOnly A (Lit w) = list_all A w"
| "mayMatchOnly A (Cls items) = True"
| "mayMatchOnly A Dot = True"
| "mayMatchOnly A (Seq a b) = (mayMatchOnly A a \<and> mayMatchOnly A b)"
| "mayMatchOnly A (Alt a b) = (mayMatchOnly A a \<or> mayMatchOnly A b)"
| "mayMatchOnly A (Star a) = True"
| "mayMatchOnly A (Lazy a) = True"
| "mayMatchOnly A (Grp a) = mayMatchOnly A a"
| "mayMatchOnly A WordB = True"
| "mayMatchOnly A Bol = True"
| "mayMatchOnly A Eol = True"

lemma matchLit_outside:
  "\<not> list_all A w \<Longrightarrow> list_all A (rest s) \<Longrightarrow> matchLit False w s = None"
proof (induction w arbitrary: s)
  case Nil
  then show ?case by simp
next
  case (Cons p ps)
  show ?case
  proof (cases "rest s")
    case Nil
    then show ?thesis by simp
  next
    case (Cons c cs)
    show ?thesis
    proof (cases "p = c")
      case False
      with Cons show ?thesis by (simp add: sameChar_def)
    next
      case True
      with Cons Cons.prems have "A p" "list_all A cs" by auto
      with Cons.prems have "\<not> list_all A ps" by simp
      from Cons.IH[OF this, of "s\<lparr>prev := c # prev s, rest := cs\<rparr>"] \<open>list_all A cs\<close>
      show ?thesis using Cons True by (simp add: sameChar_def)
    qed
  qed
qed

lemma reach_list_all: "reach s s' \<Longrightarrow> list_all A (rest s) \<Longrightarrow> list_all A (rest s')"
  by (auto simp: reach_def suffix_def list_all_iff)

lemma m_outside:
  "\<not> mayMatchOnly A r \<Longrightarrow> list_all A (rest s) \<Longrightarrow> m r False k s = None"
proof (induction r arbitrary: k s)
  case (Lit w)
  then show ?case by (simp add: matchLit_outside)
next
  case (Seq a b)
  show ?case
  proof (cases "mayMatchOnly A a")
    case False
    from Seq.IH(1)[OF this Seq.prems(2)] show ?thesis by simp
  next
    case True
    with Seq.prems have nb: "\<not> mayMatchOnly A b" by simp
    have "m a False (m b False k) s = None"
    proof (rule m_None)
      fix s' assume "reach s s'"
      then have "list_all A (rest s')" using Seq.prems(2) by (rule reach_list_all)
      with nb show "m b False k s' = None" by (rule Seq.IH(2))
    qed
    then show ?thesis by simp
  qed
next
  case (Alt a b)
  then show ?case by simp
next
  case (Grp a)
  then show ?case by simp
qed simp_all

lemma scan_outside:
  "\<not> mayMatchOnly A r \<Longrightarrow> list_all A cs \<Longrightarrow> scan r False bs cs = None"
proof (induction cs arbitrary: bs)
  case Nil
  then show ?case by (simp add: m_outside)
next
  case (Cons c cs)
  then show ?case by (simp add: m_outside)
qed

lemma test_outside:
  "\<not> mayMatchOnly A r \<Longrightarrow> list_all A s \<Longrightarrow> \<not> test r False s"
  by (simp add: test_def scan_outside)

lemma anyMatch_outside:
  "list_all (\<lambda>r. \<not> mayMatchOnly A r) patterns \<Longrightarrow> list_all A s \<Longrightarrow> \<not> anyMatch patterns s"
  by (induction patterns) (auto simp: anyMatch_def test_outside)

lemma startsWith_iff: "startsWith s p \<longleftrightarrow> (\<exists>b. s = p @ b)"
  by (induction s p rule: startsWith.induct) auto

lemma includesStr_iff: "includesStr s p \<longleftrightarrow> (\<exists>a b. s = a @ p @ b)"
proof (induction s)
  case Nil
  then show ?case by auto
next
  case (Cons c cs)
  show ?case
  proof
    assume "includesStr (c # cs) p"
    then consider "startsWith (c # cs) p" | "includesStr cs p" by auto
    then show "\<exists>a b. c # cs = a @ p @ b"
    proof cases
      case 1
      then obtain b where "c # cs = p @ b" by (auto simp: startsWith_iff)
      then have "c # cs = [] @ p @ b" by simp
      then show ?thesis by blast
    next
      case 2
      with Cons obtain a b where "cs = a @ p @ b" by blast
      then have "c # cs = (c # a) @ p @ b" by simp
      then show ?thesis by blast
    qed
  next
    assume "\<exists>a b. c # cs = a @ p @ b"
    then obtain a b where ab: "c # cs = a @ p @ b" by blast
    show "includesStr (c # cs) p"
    proof (cases a)
      case Nil
      with ab have "startsWith (c # cs) p" by (auto simp: startsWith_iff)
      then show ?thesis by simp
    next
      case (Cons x xs)
      with ab have "cs = xs @ p @ b" by simp
      with Cons.IH have "includesStr cs p" by blast
      then show ?thesis by simp
    qed
  qed
qed

lemma includesStr_outside:
  "\<not> list_all A p \<Longrightarrow> list_all A s \<Longrightarrow> \<not> includesStr s p"
  by (auto simp: includesStr_iff list_all_iff)

lemma matchLit_append:
  "matchLit False w \<lparr>prev = p, rest = w @ x, cap = c\<rparr> = Some \<lparr>prev = rev w @ p, rest = x, cap = c\<rparr>"
  by (induction w arbitrary: p) (simp_all add: sameChar_def)

lemma scan_skip:
  "m r ic Some \<lparr>prev = rev a @ bs, rest = x, cap = None\<rparr> \<noteq> None \<Longrightarrow> scan r ic bs (a @ x) \<noteq> None"
proof (induction a arbitrary: bs)
  case Nil
  then show ?case by (cases x) (auto split: option.splits)
next
  case (Cons c a)
  from Cons.prems have "m r ic Some \<lparr>prev = rev a @ (c # bs), rest = x, cap = None\<rparr> \<noteq> None"
    by simp
  from Cons.IH[OF this] show ?case by (auto split: option.splits)
qed

lemma test_at:
  "m r ic Some \<lparr>prev = rev a, rest = x, cap = None\<rparr> \<noteq> None \<Longrightarrow> test r ic (a @ x)"
  using scan_skip[of r ic a "[]" x] by (simp add: test_def)

lemma scan_reach:
  "scan r ic bs cs = Some t \<Longrightarrow>
   \<exists>bs' cs'. rev bs' @ cs' = rev bs @ cs \<and> reach \<lparr>prev = bs', rest = cs', cap = None\<rparr> t \<and>
     m r ic Some \<lparr>prev = bs', rest = cs', cap = None\<rparr> = Some t"
proof (induction cs arbitrary: bs)
  case Nil
  then have "m r ic Some \<lparr>prev = bs, rest = [], cap = None\<rparr> = Some t" by simp
  moreover from m_reach[OF this] have "reach \<lparr>prev = bs, rest = [], cap = None\<rparr> t" by auto
  ultimately show ?case by blast
next
  case (Cons c cs)
  show ?case
  proof (cases "m r ic Some \<lparr>prev = bs, rest = c # cs, cap = None\<rparr>")
    case None
    with Cons.prems have "scan r ic (c # bs) cs = Some t" by simp
    from Cons.IH[OF this] show ?thesis by simp
  next
    case (Some u)
    with Cons.prems have e: "m r ic Some \<lparr>prev = bs, rest = c # cs, cap = None\<rparr> = Some t" by simp
    moreover from m_reach[OF e] have "reach \<lparr>prev = bs, rest = c # cs, cap = None\<rparr> t" by auto
    ultimately show ?thesis by blast
  qed
qed


text \<open>Does every match of the expression go through its capturing group?\<close>

fun alwaysCaptures :: "rx \<Rightarrow> bool" where
  "alwaysCaptures (Grp a) = True"
| "alwaysCaptures (Seq a b) = (alwaysCaptures a \<or> alwaysCaptures b)"
| "alwaysCaptures (Alt a b) = (alwaysCaptures a \<and> alwaysCaptures b)"
| "alwaysCaptures r = False"

lemma reach_cap: "reach s s' \<Longrightarrow> cap s \<noteq> None \<Longrightarrow> cap s' \<noteq> None"
  by (auto simp: reach_def)

lemma m_captures:
  "alwaysCaptures r \<Longrightarrow> m r ic k s = Some t \<Longrightarrow>
   \<exists>s'. reach s s' \<and> cap s' \<noteq> None \<and> k s' = Some t"
proof (induction r arbitrary: k s t)
  case (Seq a b)
  show ?case
  proof (cases "alwaysCaptures a")
    case True
    from Seq.prems(2) have "m a ic (m b ic k) s = Some t" by simp
    from Seq.IH(1)[OF True this] obtain s1 where s1: "reach s s1" "cap s1 \<noteq> None"
      "m b ic k s1 = Some t" by blast
    from m_reach[OF s1(3)] obtain s2 where s2: "reach s1 s2" "k s2 = Some t" by blast
    have "reach s s2" using s1(1) s2(1) by (rule reach_trans)
    moreover have "cap s2 \<noteq> None" using s2(1) s1(2) by (rule reach_cap)
    ultimately show ?thesis using s2(2) by blast
  next
    case False
    with Seq.prems(1) have b: "alwaysCaptures b" by simp
    from Seq.prems(2) have "m a ic (m b ic k) s = Some t" by simp
    from m_reach[OF this] obtain s1 where s1: "reach s s1" "m b ic k s1 = Some t" by blast
    from Seq.IH(2)[OF b s1(2)] obtain s2 where "reach s1 s2" "cap s2 \<noteq> None" "k s2 = Some t"
      by blast
    with s1 show ?thesis by (blast intro: reach_trans)
  qed
next
  case (Alt a b)
  then show ?case by (auto split: option.splits)
next
  case (Grp a)
  from Grp.prems(2) have "m a ic (\<lambda>s'. k (s'\<lparr>cap := Some (take (length (rest s) - length (rest s')) (rest s))\<rparr>)) s = Some t"
    by simp
  from m_reach[OF this] obtain s1 where s1: "reach s s1"
    and k1: "k (s1\<lparr>cap := Some (take (length (rest s) - length (rest s1)) (rest s))\<rparr>) = Some t"
    by blast
  from reach_capture[OF s1] k1 show ?case by (intro exI conjI) auto
qed simp_all

lemma match_captures:
  assumes "alwaysCaptures r"
  shows "match s r ic \<noteq> Some None"
proof
  assume "match s r ic = Some None"
  then obtain t where t: "scan r ic [] s = Some t" and c: "cap t = None"
    by (auto simp: match_def split: option.splits)
  from scan_reach[OF t] obtain bs' cs' where
    "m r ic Some \<lparr>prev = bs', rest = cs', cap = None\<rparr> = Some t" by blast
  from m_captures[OF assms this] c show False by auto
qed

section \<open>Properties of the safety filter\<close>

lemma isSpace_lowerChar: "isSpace c \<Longrightarrow> lowerChar c = c"
  by (auto simp: isSpace_def lowerChar_def Let_def)

lemma toLowerCase_spaces: "list_all isSpace s \<Longrightarrow> toLowerCase s = s"
  by (induction s) (simp_all add: toLowerCase_def isSpace_lowerChar)

lemma bypass_story:
  assumes "includesStr s ''it's for a story''"
  shows "hasNoExceptionsBypass s"
proof -
  from assms obtain a b where s: "s = a @ ''it's for a story'' @ b"
    by (auto simp: includesStr_iff)
  have "m (hd bypassPatterns) False Some \<lparr>prev = rev a, rest = ''it's for a story'' @ b, cap = None\<rparr> \<noteq> None"
    by (simp add: bypassPatterns_def words_def sameChar_def)
  then have "test (hd bypassPatterns) False s"
    unfolding s using test_at[of "hd bypassPatterns" False a "''it's for a story'' @ b"] by simp
  then show ?thesis
    by (simp add: hasNoExceptionsBypass_def anyMatch_def bypassPatterns_def)
qed

text \<open>
  C10. The verdict of \<open>checkContent\<close> depends on the \<open>userMessage\<close> of its context only:
  two contexts with the same message get the same \<open>SafetyCheckResult\<close>, whatever their
  \<open>conversationHistory\<close> and \<open>sessionId\<close> are.
\<close>

theorem checkContent_userMessage_only:
  "userMessage c1 = userMessage c2 \<Longrightarrow> checkContent c1 = checkContent c2"
  by (simp only: checkContent_def)

theorem checkContent_userMessage_only_witness:
  "userMessage \<lparr>userMessage = ''hello there'', conversationHistory = Some [''how to bully''],
                 sessionId = Some ''session-1''\<rparr>
     = userMessage \<lparr>userMessage = ''hello there'', conversationHistory = None, sessionId = None\<rparr>
   \<and> checkContent \<lparr>userMessage = ''hello there'', conversationHistory = Some [''how to bully''],
                     sessionId = Some ''session-1''\<rparr>
     = checkContent \<lparr>userMessage = ''hello there'', conversationHistory = None, sessionId = None\<rparr>"
  using checkContent_userMessage_only
    [of "\<lparr>userMessage = ''hello there'', conversationHistory = Some [''how to bully''],
          sessionId = Some ''session-1''\<rparr>"
        "\<lparr>userMessage = ''hello there'', conversationHistory = None, sessionId = None\<rparr>"]
  by simp

text \<open>
  The order of the categories as the specification gives it, and the first category
  of that order whose check reports a violation.
\<close>

definition categoryOrder :: "(string \<times> (string \<Rightarrow> string \<Rightarrow> IntentCheck)) list" where
  "categoryOrder =
     [(''violence'', checkViolenceIntent),
      (''self-harm'', checkSelfHarmIntent),
      (''child-safety'', checkChildSafetyIntent),
      (''illegal-activities'', checkIllegalActivitiesIntent),
      (''privacy-violations'', checkPrivacyViolationsIntent),
      (''hate-speech'', checkHateSpeechIntent),
      (''adult-content'', checkAdultContentIntent)]"

definition firstViolation :: "string \<Rightarrow> string option" where
  "firstViolation message =
     map_option fst
       (find (\<lambda>category. isViolation (snd category (toLowerCase message) message)) categoryOrder)"

lemma anyMatch_append: "anyMatch (ps @ qs) s \<longleftrightarrow> anyMatch ps s \<or> anyMatch qs s"
  by (simp add: anyMatch_def list_ex_iff) blast

lemma checkContent_violence:
  "isViolation (checkViolenceIntent (toLowerCase (userMessage c)) (userMessage c)) \<Longrightarrow>
   checkContent c = createViolationResult ''violence''
     (reasonOr (checkViolenceIntent (toLowerCase (userMessage c)) (userMessage c))
        ''Violence-related content detected'')
     (checkConfidence (checkViolenceIntent (toLowerCase (userMessage c)) (userMessage c)))"
  by (simp add: checkContent_def Let_def)


lemma checkContent_isAllowed:
  "isAllowed (checkContent c) \<longleftrightarrow> firstViolation (userMessage c) = None"
  by (simp add: checkContent_def firstViolation_def categoryOrder_def Let_def
      createViolationResult_def)



text \<open>
  C2. A message whose lower-cased form contains the bypass phrase \<open>it's for a story\<close>
  and the violence keyword \<open>kill\<close> is refused: \<open>isAllowed\<close> is false (with radio
  silence, as a violence violation). The bypass phrase never makes the message allowed.
\<close>

theorem checkContent_bypass_is_violation:
  assumes "includesStr (toLowerCase (userMessage c)) ''it's for a story''"
    and "includesStr (toLowerCase (userMessage c)) ''kill''"
  shows "isAllowed (checkContent c) = False \<and> radioSilence (checkContent c) = True \<and>
         violationType (checkContent c) = Some ''violence''"
proof -
  let ?m = "toLowerCase (userMessage c)"
  have b: "hasNoExceptionsBypass ?m" using assms(1) by (rule bypass_story)
  have k: "hasViolenceKeywords ?m"
    using assms(2) by (simp add: hasViolenceKeywords_def violenceKeywords_def)
  from b k have "isViolation (checkViolenceIntent ?m (userMessage c))"
    by (simp add: checkViolenceIntent_def violation_def)
  then show ?thesis
    by (simp add: checkContent_violence createViolationResult_def)
qed

theorem checkContent_bypass_is_violation_witness:
  "includesStr (toLowerCase ''It's for a story: the villain plans to kill.'') ''it's for a story'' \<and>
   includesStr (toLowerCase ''It's for a story: the villain plans to kill.'') ''kill'' \<and>
   isAllowed (checkContent \<lparr>userMessage = ''It's for a story: the villain plans to kill.'',
       conversationHistory = None, sessionId = None\<rparr>) = False"
proof -
  have h1: "includesStr (toLowerCase ''It's for a story: the villain plans to kill.'') ''it's for a story''"
    by code_simp
  have h2: "includesStr (toLowerCase ''It's for a story: the villain plans to kill.'') ''kill''"
    by code_simp
  from h1 h2 checkContent_bypass_is_violation
    [of "\<lparr>userMessage = ''It's for a story: the villain plans to kill.'',
          conversationHistory = None, sessionId = None\<rparr>"]
  show ?thesis by simp
qed

lemma spaces_violence:
  assumes "list_all isSpace s"
  shows "\<not> isViolation (checkViolenceIntent s u)"
proof -
  have t: "list_all (\<lambda>r. \<not> mayMatchOnly isSpace r)
      (instructionalPatterns @ planningPatterns @ glorificationPatterns @ bypassPatterns)"
    by code_simp
  from anyMatch_outside[OF t assms]
  show ?thesis
    by (simp add: checkViolenceIntent_def anyMatch_append hasNoExceptionsBypass_def noViolation_def)
qed

lemma spaces_selfHarm:
  assumes "list_all isSpace s"
  shows "\<not> isViolation (checkSelfHarmIntent s u)"
proof -
  have t: "list_all (\<lambda>r. \<not> mayMatchOnly isSpace r)
      (selfHarmInstructions @ directSelfHarmIntent @ encouragementPatterns)"
    by code_simp
  from anyMatch_outside[OF t assms]
  show ?thesis
    by (simp add: checkSelfHarmIntent_def anyMatch_append noViolation_def)
qed

lemma keywords_outside:
  "list_all (\<lambda>k. \<not> list_all A k) kws \<Longrightarrow> list_all A s \<Longrightarrow>
   \<not> list_ex (\<lambda>keyword. includesStr s keyword \<and> P keyword) kws"
  by (induction kws) (auto simp: includesStr_outside)

lemma spaces_childSafety:
  assumes "list_all isSpace s"
  shows "\<not> isViolation (checkChildSafetyIntent s u)"
proof -
  have t: "list_all (\<lambda>r. \<not> mayMatchOnly isSpace r) allPatterns_child"
    by code_simp
  have k: "list_all (\<lambda>k. \<not> list_all isSpace k) criticalKeywords"
    by code_simp
  from anyMatch_outside[OF t assms] keywords_outside[OF k assms, of "\<lambda>_. True"]
  show ?thesis
    by (simp add: checkChildSafetyIntent_def noViolation_def)
qed

lemma spaces_illegal:
  assumes "list_all isSpace s"
  shows "\<not> isViolation (checkIllegalActivitiesIntent s u)"
proof -
  have t: "list_all (\<lambda>r. \<not> mayMatchOnly isSpace r)
      (drugManufacturingPatterns @ fraudPatterns @ hackingPatterns)"
    by code_simp
  from anyMatch_outside[OF t assms]
  show ?thesis
    by (simp add: checkIllegalActivitiesIntent_def anyMatch_append noViolation_def)
qed

lemma spaces_privacy:
  assumes "list_all isSpace s"
  shows "\<not> isViolation (checkPrivacyViolationsIntent s u)"
proof -
  have t: "list_all (\<lambda>r. \<not> mayMatchOnly isSpace r) (doxxingPatterns @ surveillancePatterns)"
    by code_simp
  from anyMatch_outside[OF t assms]
  show ?thesis
    by (simp add: checkPrivacyViolationsIntent_def anyMatch_append noViolation_def)
qed

lemma spaces_hateSpeech:
  assumes "list_all isSpace s"
  shows "\<not> isViolation (checkHateSpeechIntent s u)"
proof -
  have t: "list_all (\<lambda>r. \<not> mayMatchOnly isSpace r)
      (harassmentPatterns @ organizedHarassmentPatterns)"
    by code_simp
  from anyMatch_outside[OF t assms]
  show ?thesis
    by (simp add: checkHateSpeechIntent_def anyMatch_append noViolation_def)
qed

lemma spaces_adult:
  assumes "list_all isSpace s"
  shows "\<not> isViolation (checkAdultContentIntent s u)"
proof -
  have t: "list_all (\<lambda>r. \<not> mayMatchOnly isSpace r) allPatterns_adult"
    by code_simp
  have k1: "list_all (\<lambda>k. \<not> list_all isSpace k) explicitKeywords"
    by code_simp
  have k2: "list_all (\<lambda>k. \<not> list_all isSpace k) inappropriateContextKeywords"
    by code_simp
  from anyMatch_outside[OF t assms] keywords_outside[OF k1 assms] keywords_outside[OF k2 assms]
  show ?thesis
    by (simp add: checkAdultContentIntent_def noViolation_def)
qed

lemma spaces_firstViolation:
  assumes "list_all isSpace message"
  shows "firstViolation message = None"
proof -
  from assms have l: "list_all isSpace (toLowerCase message)"
    by (simp add: toLowerCase_spaces)
  show ?thesis
    by (simp add: firstViolation_def categoryOrder_def spaces_violence[OF l]
        spaces_selfHarm[OF l] spaces_childSafety[OF l] spaces_illegal[OF l]
        spaces_privacy[OF l] spaces_hateSpeech[OF l] spaces_adult[OF l])
qed

text \<open>
  C9. When no category check reports a violation, \<open>checkContent\<close> returns exactly
  \<open>{isAllowed: true, confidence: 0.95, radioSilence: false}\<close>; and that is what it returns
  for the empty message and for every message of white space only.
\<close>

theorem checkContent_no_violation_allowed:
  "(\<not> isViolation (checkViolenceIntent (toLowerCase (userMessage c)) (userMessage c)) \<and>
    \<not> isViolation (checkSelfHarmIntent (toLowerCase (userMessage c)) (userMessage c)) \<and>
    \<not> isViolation (checkChildSafetyIntent (toLowerCase (userMessage c)) (userMessage c)) \<and>
    \<not> isViolation (checkIllegalActivitiesIntent (toLowerCase (userMessage c)) (userMessage c)) \<and>
    \<not> isViolation (checkPrivacyViolationsIntent (toLowerCase (userMessage c)) (userMessage c)) \<and>
    \<not> isViolation (checkHateSpeechIntent (toLowerCase (userMessage c)) (userMessage c)) \<and>
    \<not> isViolation (checkAdultContentIntent (toLowerCase (userMessage c)) (userMessage c))
    \<longrightarrow> checkContent c =
          \<lparr>isAllowed = True, violationType = None, reason = None, confidence = 95 / 100,
           radioSilence = False\<rparr>) \<and>
   (list_all isSpace (userMessage c)
    \<longrightarrow> checkContent c =
          \<lparr>isAllowed = True, violationType = None, reason = None, confidence = 95 / 100,
           radioSilence = False\<rparr>)"
proof -
  have a: "checkContent c =
          \<lparr>isAllowed = True, violationType = None, reason = None, confidence = 95 / 100,
           radioSilence = False\<rparr>"
    if "firstViolation (userMessage c) = None"
    using that
    by (simp add: checkContent_def firstViolation_def categoryOrder_def Let_def
        split: if_splits)
  show ?thesis
  proof (intro conjI impI)
    assume "\<not> isViolation (checkViolenceIntent (toLowerCase (userMessage c)) (userMessage c)) \<and>
      \<not> isViolation (checkSelfHarmIntent (toLowerCase (userMessage c)) (userMessage c)) \<and>
      \<not> isViolation (checkChildSafetyIntent (toLowerCase (userMessage c)) (userMessage c)) \<and>
      \<not> isViolation (checkIllegalActivitiesIntent (toLowerCase (userMessage c)) (userMessage c)) \<and>
      \<not> isViolation (checkPrivacyViolationsIntent (toLowerCase (userMessage c)) (userMessage c)) \<and>
      \<not> isViolation (checkHateSpeechIntent (toLowerCase (userMessage c)) (userMessage c)) \<and>
      \<not> isViolation (checkAdultContentIntent (toLowerCase (userMessage c)) (userMessage c))"
    then have "firstViolation (userMessage c) = None"
      by (simp add: firstViolation_def categoryOrder_def)
    then show "checkContent c =
          \<lparr>isAllowed = True, violationType = None, reason = None, confidence = 95 / 100,
           radioSilence = False\<rparr>"
      by (rule a)
  next
    assume "list_all isSpace (userMessage c)"
    then have "firstViolation (userMessage c) = None" by (rule spaces_firstViolation)
    then show "checkContent c =
          \<lparr>isAllowed = True, violationType = None, reason = None, confidence = 95 / 100,
           radioSilence = False\<rparr>"
      by (rule a)
  qed
qed

theorem checkContent_no_violation_allowed_witness:
  "checkContent \<lparr>userMessage = [], conversationHistory = None, sessionId = None\<rparr> =
     \<lparr>isAllowed = True, violationType = None, reason = None, confidence = 95 / 100,
      radioSilence = False\<rparr> \<and>
   checkContent \<lparr>userMessage = [CHR '' '', CHR 0x09, CHR ''\<newline>'', CHR '' ''],
       conversationHistory = Some [], sessionId = Some ''s''\<rparr> =
     \<lparr>isAllowed = True, violationType = None, reason = None, confidence = 95 / 100,
      radioSilence = False\<rparr>"
proof -
  have s: "list_all isSpace [CHR '' '', CHR 0x09, CHR ''\<newline>'', CHR '' '']"
    by code_simp
  from s checkContent_no_violation_allowed
    [of "\<lparr>userMessage = [], conversationHistory = None, sessionId = None\<rparr>"]
    checkContent_no_violation_allowed
    [of "\<lparr>userMessage = [CHR '' '', CHR 0x09, CHR ''\<newline>'', CHR '' ''],
       conversationHistory = Some [], sessionId = Some ''s''\<rparr>"]
  show ?thesis by simp
qed

section \<open>Properties of \<open>JSON.parse\<close>\<close>




















section \<open>Properties of the response parser\<close>


lemma success_failure: "\<not> success failure"
  by (simp add: failure_def)

lemma success_succeed: "success (succeed r)"
  by (simp add: succeed_def)

lemma response_succeed: "response (succeed r) = Some r"
  by (simp add: succeed_def)










lemma detectHTMLTool_responseType:
  assumes "success (detectHTMLTool x agent)"
  shows "responseProp (detectHTMLTool x agent) ''responseType'' = JStr ''tool-generation''"
  using assms
  by (auto simp: detectHTMLTool_def Let_def success_failure responseProp_def response_succeed
      split: if_splits option.splits)
















lemma extractHTML_Some: "\<exists>h. extractHTML content = Some h"
proof -
  have a: "match content htmlCodeBlock True \<noteq> Some None"
    by (rule match_captures) (simp add: htmlCodeBlock_def)
  have b: "match content htmlDocument True \<noteq> Some None"
    by (rule match_captures) (simp add: htmlDocument_def)
  have c: "match content htmlBlock True \<noteq> Some None"
    by (rule match_captures) (simp add: htmlBlock_def)
  from a b c show ?thesis
    by (auto simp: extractHTML_def split: option.splits)
qed

text \<open>
  When strategy 3 succeeds, and what it answers: the guard of the source is
  \<open>!hasHTML || content.length < 1000\<close>, so a text of exactly 1000 characters passes.
\<close>

lemma detectHTMLTool_success_iff:
  "success (detectHTMLTool content agent) \<longleftrightarrow>
     test htmlPattern True content \<and> 1000 \<le> length content"
proof -
  obtain h where "extractHTML content = Some h" using extractHTML_Some by blast
  then show ?thesis
    by (auto simp: detectHTMLTool_def Let_def success_failure success_succeed)
qed

lemma detectHTMLTool_confidence:
  assumes "success (detectHTMLTool content agent)"
  shows "responseProp (detectHTMLTool content agent) ''confidence'' =
           JNum (if list_ex (\<lambda>keyword. includesStr (toLowerCase content) (toLowerCase keyword))
                      toolKeywords
                 then 8 / 10 else 6 / 10)"
proof -
  obtain h where "extractHTML content = Some h" using extractHTML_Some by blast
  with assms show ?thesis
    by (simp add: detectHTMLTool_def Let_def success_failure responseProp_def response_succeed
        split: if_splits)
qed

text \<open>
  C4 (the code as it is). Strategy 3 succeeds exactly when the text has an HTML marker
  and is at least 1000 characters long, so also on a text of exactly 1000 characters,
  whose length does not exceed 1000. The response then has the \<open>responseType\<close>
  \<open>tool-generation\<close>, and the confidence 0.8 if the lower-cased text contains a tool
  keyword, 0.6 otherwise.
\<close>

theorem detectHTMLTool_threshold:
  "(success (detectHTMLTool content agent) \<longleftrightarrow>
      test htmlPattern True content \<and> 1000 \<le> length content) \<and>
   (success (detectHTMLTool content agent) \<longrightarrow>
      responseProp (detectHTMLTool content agent) ''responseType'' = JStr ''tool-generation'' \<and>
      responseProp (detectHTMLTool content agent) ''confidence'' =
        JNum (if list_ex (\<lambda>keyword. includesStr (toLowerCase content) (toLowerCase keyword))
                   toolKeywords
              then 8 / 10 else 6 / 10))"
  using detectHTMLTool_success_iff[of content agent] detectHTMLTool_responseType[of content agent]
    detectHTMLTool_confidence[of content agent]
  by blast

text \<open>
  A text of exactly 1000 characters that has an HTML marker and no tool keyword: strategy 3
  succeeds, with confidence 0.6.
\<close>

theorem detectHTMLTool_threshold_witness:
  "length (''<div'' @ replicate 996 (CHR ''x'')) = 1000 \<and>
   success (detectHTMLTool (''<div'' @ replicate 996 (CHR ''x'')) ''noah'') \<and>
   responseProp (detectHTMLTool (''<div'' @ replicate 996 (CHR ''x'')) ''noah'') ''responseType''
     = JStr ''tool-generation'' \<and>
   responseProp (detectHTMLTool (''<div'' @ replicate 996 (CHR ''x'')) ''noah'') ''confidence''
     = JNum (6 / 10)"
proof -
  let ?c = "''<div'' @ replicate 996 (CHR ''x'')"
  note th = detectHTMLTool_threshold[of ?c "''noah''"]
  have len: "length ?c = 1000" by simp
  have "m htmlPattern True Some \<lparr>prev = rev [], rest = ?c, cap = None\<rparr> \<noteq> None"
    by (simp add: htmlPattern_def words_def sameChar_def canonicalize_code)
  then have html: "test htmlPattern True ?c"
    using test_at[of htmlPattern True "[]" ?c] by simp
  have "1000 \<le> length ?c" unfolding len by simp
  with html th have s: "success (detectHTMLTool ?c ''noah'')" by blast
  have low: "toLowerCase ?c = ?c"
    by (simp add: toLowerCase_def lowerChar_code)
  have all: "list_all (\<lambda>c. c \<in> set ''<divx'') ?c"
    by (simp add: list_all_iff)
  have kw: "list_all (\<lambda>k. \<not> list_all (\<lambda>c. c \<in> set ''<divx'') k) (map toLowerCase toolKeywords)"
    by code_simp
  have "\<not> list_ex (\<lambda>keyword. includesStr ?c keyword \<and> True) (map toLowerCase toolKeywords)"
    using kw all by (rule keywords_outside)
  then have nk: "\<not> list_ex (\<lambda>keyword. includesStr (toLowerCase ?c) (toLowerCase keyword)) toolKeywords"
    unfolding low by (simp add: list_ex_iff)
  from th s have
    t: "responseProp (detectHTMLTool ?c ''noah'') ''responseType'' = JStr ''tool-generation''" and
    "responseProp (detectHTMLTool ?c ''noah'') ''confidence'' =
        JNum (if list_ex (\<lambda>keyword. includesStr (toLowerCase ?c) (toLowerCase keyword))
                   toolKeywords
              then 8 / 10 else 6 / 10)" by blast+
  with nk have c: "responseProp (detectHTMLTool ?c ''noah'') ''confidence'' = JNum (6 / 10)"
    by (simp only: if_False)
  from len s t c show ?thesis by blast
qed

section \<open>Properties of the quantifiers\<close>

lemma matchLit_iff:
  "matchLit False w s =
     (if startsWith (rest s) w
      then Some (s\<lparr>prev := rev w @ prev s, rest := drop (length w) (rest s)\<rparr>)
      else None)"
proof (induction w arbitrary: s)
  case Nil
  then show ?case by simp
next
  case (Cons p ps)
  show ?case
  proof (cases "rest s")
    case Nil
    then show ?thesis by simp
  next
    case (Cons c cs)
    then show ?thesis by (simp add: sameChar_def Cons.IH)
  qed
qed

lemma step1_Nil: "step1 P k \<lparr>prev = p, rest = [], cap = c\<rparr> = None"
  by (simp add: step1_def)

lemma step1_Cons:
  "step1 P k \<lparr>prev = p, rest = d # ds, cap = c\<rparr> =
     (if P d then k \<lparr>prev = d # p, rest = ds, cap = c\<rparr> else None)"
  by (simp add: step1_def)

text \<open>
  A lazy \<open>[\s\S]*?\<close> tries its continuation at the current position, then one
  character further, and so on to the end of the text.
\<close>

fun fwd :: "cont \<Rightarrow> string \<Rightarrow> string \<Rightarrow> string option \<Rightarrow> mstate option" where
  "fwd k p [] c = k \<lparr>prev = p, rest = [], cap = c\<rparr>"
| "fwd k p (d # ds) c =
     (case k \<lparr>prev = p, rest = d # ds, cap = c\<rparr> of
        Some r \<Rightarrow> Some r
      | None \<Rightarrow> fwd k (d # p) ds c)"

lemma lazy_any:
  "length y \<le> n \<Longrightarrow>
   lazy n (step1 (\<lambda>c. True)) k \<lparr>prev = p, rest = y, cap = c\<rparr> = fwd k p y c"
proof (induction y arbitrary: p n)
  case Nil
  then show ?case by (cases n) (simp_all add: step1_Nil split: option.splits)
next
  case (Cons d ds)
  then obtain n' where n: "n = Suc n'" and l: "length ds \<le> n'" by (cases n) auto
  show ?case
    by (simp add: n step1_Cons Cons.IH[OF l] split: option.splits)
qed

lemma m_AnyChar: "m AnyChar ic = step1 (\<lambda>c. True)"
  by (rule ext, rule ext) (simp add: AnyChar_def)

lemma m_Lazy_AnyChar:
  "m (Lazy AnyChar) ic k \<lparr>prev = p, rest = y, cap = c\<rparr> = fwd k p y c"
  by (simp add: m_AnyChar lazy_any)

text \<open>
  A greedy \<open>\s*\<close> takes all the white space and tries its continuation there, then
  one character back, and so on to where it started.
\<close>

fun grd :: "cont \<Rightarrow> string \<Rightarrow> string \<Rightarrow> string \<Rightarrow> string option \<Rightarrow> mstate option" where
  "grd k p [] x c = k \<lparr>prev = p, rest = x, cap = c\<rparr>"
| "grd k p (d # ds) x c =
     (case grd k (d # p) ds x c of
        Some r \<Rightarrow> Some r
      | None \<Rightarrow> k \<lparr>prev = p, rest = d # ds @ x, cap = c\<rparr>)"

lemma greedy_class:
  "list_all P w \<Longrightarrow> x = [] \<or> \<not> P (hd x) \<Longrightarrow> length w \<le> n \<Longrightarrow>
   greedy n (step1 P) k \<lparr>prev = p, rest = w @ x, cap = c\<rparr> = grd k p w x c"
proof (induction w arbitrary: p n)
  case Nil
  then show ?case
    by (cases n; cases x) (auto simp: step1_Nil step1_Cons split: option.splits)
next
  case (Cons d ds)
  then obtain n' where n: "n = Suc n'" and l: "length ds \<le> n'" by (cases n) auto
  from Cons.prems have "P d" "list_all P ds" by simp_all
  with Cons.IH[OF \<open>list_all P ds\<close> Cons.prems(2) l]
  show ?case by (simp add: n step1_Cons)
qed

lemma m_Star_Space:
  assumes "list_all isSpace w" and "x = [] \<or> \<not> isSpace (hd x)"
  shows "m (Star (Cls [Space])) ic k \<lparr>prev = p, rest = w @ x, cap = c\<rparr> = grd k p w x c"
proof -
  have "m (Cls [Space]) ic = step1 isSpace"
    by (rule ext, rule ext) simp
  with greedy_class[OF assms, of "length (w @ x)" k p c] show ?thesis by simp
qed

lemma grd_final:
  "k \<lparr>prev = rev w @ p, rest = x, cap = c\<rparr> = Some r \<Longrightarrow> grd k p w x c = Some r"
  by (induction w arbitrary: p) simp_all

lemma grd_append:
  "grd k (rev w1 @ p) w2 x c = Some r \<Longrightarrow> grd k p (w1 @ w2) x c = Some r"
  by (induction w1 arbitrary: p) simp_all

section \<open>The legacy format\<close>

text \<open>
  The words of the specification, as functions on texts: the text after the first occurrence of
  a marker, and the text up to (not including) the first occurrence of a marker, which is
  the whole text when the marker does not occur.
\<close>

fun afterFirst :: "string \<Rightarrow> string \<Rightarrow> string option" where
  "afterFirst [] p = (if p = [] then Some [] else None)"
| "afterFirst (c # cs) p =
     (if startsWith (c # cs) p then Some (drop (length p) (c # cs)) else afterFirst cs p)"

fun upTo :: "string \<Rightarrow> string \<Rightarrow> string" where
  "upTo [] p = []"
| "upTo (c # cs) p = (if startsWith (c # cs) p then [] else c # upTo cs p)"

text \<open>
  The span the tool pattern captures in the text \<open>a\<close> after \<open>TOOL:\<close>: from the first
  character that is not white space up to a blank line followed by \<open>REASONING:\<close>, or
  to the end; when \<open>a\<close> is white space only, its last character.
\<close>

definition toolSpan :: "string \<Rightarrow> string" where
  "toolSpan a =
     (if trimStart a = [] then [last a]
      else upTo (trimStart a) ''\<newline>\<newline>REASONING:'')"

lemma m_Seq: "m (Seq a b) ic k s = m a ic (m b ic k) s"
  by simp

lemma m_Lit:
  "m (Lit w) False k s =
     (if startsWith (rest s) w
      then k (s\<lparr>prev := rev w @ prev s, rest := drop (length w) (rest s)\<rparr>)
      else None)"
  by (simp add: matchLit_iff)

text \<open>A continuation that accepts at the marker \<open>d\<close> or at the end of the text.\<close>

definition endsAt :: "string \<Rightarrow> cont \<Rightarrow> bool" where
  "endsAt d k \<longleftrightarrow>
     (\<forall>s. k s =
        (if startsWith (rest s) d
         then Some (s\<lparr>prev := rev d @ prev s, rest := drop (length d) (rest s)\<rparr>)
         else if rest s = [] then Some s else None))"

lemma endsAt_pattern: "endsAt d (m (Alt (Lit d) Eol) False Some)"
  by (simp add: endsAt_def matchLit_iff)

lemma fwd_upTo:
  assumes "d \<noteq> []" and k: "endsAt d k"
  shows "x = u @ y \<Longrightarrow>
     \<exists>t. fwd (\<lambda>s'. k (s'\<lparr>cap := Some (take (length x - length (rest s')) x)\<rparr>)) p y c = Some t \<and>
         cap t = Some (u @ upTo y d)"
proof (induction y arbitrary: p u)
  case Nil
  with assms(1) show ?case
    by (cases d) (simp_all add: k[unfolded endsAt_def])
next
  case (Cons e es)
  show ?case
  proof (cases "startsWith (e # es) d")
    case True
    with Cons.prems show ?thesis by (simp add: k[unfolded endsAt_def])
  next
    case False
    from Cons.prems have "x = (u @ [e]) @ es" by simp
    from Cons.IH[OF this, of "e # p"] obtain t where
      "fwd (\<lambda>s'. k (s'\<lparr>cap := Some (take (length x - length (rest s')) x)\<rparr>)) (e # p) es c = Some t"
      "cap t = Some ((u @ [e]) @ upTo es d)" by blast
    with False Cons.prems show ?thesis by (simp add: k[unfolded endsAt_def])
  qed
qed

lemma group_eval:
  "m (Grp (LazyPlus AnyChar)) False k \<lparr>prev = p, rest = e # es, cap = c\<rparr> =
     fwd (\<lambda>s'. k (s'\<lparr>cap := Some (take (length (e # es) - length (rest s')) (e # es))\<rparr>))
       (e # p) es c"
  by (simp add: LazyPlus_def m_AnyChar step1_Cons lazy_any)

lemma group_empty:
  "m (Grp (LazyPlus AnyChar)) False k \<lparr>prev = p, rest = [], cap = c\<rparr> = None"
  by (simp add: LazyPlus_def m_AnyChar step1_Nil)

lemma group_span:
  assumes "d \<noteq> []" and "endsAt d k" and "\<not> startsWith (e # es) d"
  shows "\<exists>t. m (Grp (LazyPlus AnyChar)) False k \<lparr>prev = p, rest = e # es, cap = c\<rparr> = Some t \<and>
             cap t = Some (upTo (e # es) d)"
proof -
  have "e # es = [e] @ es" by simp
  from fwd_upTo[OF assms(1,2) this, of "e # p" c] assms(3) show ?thesis
    unfolding group_eval by simp
qed

lemma group_last:
  assumes "d \<noteq> []" and "endsAt d k"
  shows "m (Grp (LazyPlus AnyChar)) False k \<lparr>prev = p, rest = [e], cap = c\<rparr> =
           Some \<lparr>prev = e # p, rest = [], cap = Some [e]\<rparr>"
  using assms(1) unfolding group_eval by (cases d) (simp_all add: assms(2)[unfolded endsAt_def])

lemma tool_at:
  assumes "a \<noteq> []"
  shows "\<exists>t. m toolPattern False Some \<lparr>prev = bs, rest = ''TOOL:'' @ a, cap = None\<rparr> = Some t \<and>
             cap t = Some (toolSpan a)"
proof -
  let ?d = "''\<newline>\<newline>REASONING:''"
  define k3 where "k3 = m (Alt (Lit ?d) Eol) False Some"
  define k2 where "k2 = m (Grp (LazyPlus AnyChar)) False k3"
  have k3: "endsAt ?d k3" unfolding k3_def by (rule endsAt_pattern)
  have d: "?d \<noteq> []" by simp
  let ?w = "takeWhile isSpace a" and ?x = "dropWhile isSpace a"
  let ?p = "rev ''TOOL:'' @ bs"
  have a: "a = ?w @ ?x" by simp
  have w: "list_all isSpace ?w" by (simp add: list_all_iff) (meson set_takeWhileD)
  have x: "?x = [] \<or> \<not> isSpace (hd ?x)" by (metis hd_dropWhile)
  have star: "m (Star (Cls [Space])) False k2 \<lparr>prev = ?p, rest = a, cap = None\<rparr> =
      grd k2 ?p ?w ?x None"
    using m_Star_Space[OF w x, of False k2 ?p None] a by simp
  have "\<exists>t. grd k2 ?p ?w ?x None = Some t \<and> cap t = Some (toolSpan a)"
  proof (cases "?x")
    case Nil
    then have aw: "?w = a" using a by simp
    from assms obtain w' e where we: "a = w' @ [e]" by (metis rev_exhaust)
    have "grd k2 (rev w' @ ?p) [e] [] None =
            Some \<lparr>prev = e # rev w' @ ?p, rest = [], cap = Some [e]\<rparr>"
      unfolding k2_def by (simp add: group_empty group_last[OF d k3] del: m.simps)
    then have "grd k2 ?p (w' @ [e]) [] None =
            Some \<lparr>prev = e # rev w' @ ?p, rest = [], cap = Some [e]\<rparr>"
      by (rule grd_append)
    moreover have "toolSpan a = [e]" using Nil we by (simp add: toolSpan_def trimStart_def)
    ultimately show ?thesis using Nil aw we by simp
  next
    case (Cons e es)
    with x have ns: "\<not> isSpace e" by simp
    have "isSpace (CHR ''\<newline>'')" by (simp add: isSpace_code)
    with ns have "e \<noteq> CHR ''\<newline>''" by auto
    then have nd: "\<not> startsWith (e # es) ?d" by simp
    from group_span[OF d k3 nd, of "rev ?w @ ?p" None] obtain t where
      t: "k2 \<lparr>prev = rev ?w @ ?p, rest = e # es, cap = None\<rparr> = Some t"
         "cap t = Some (upTo (e # es) ?d)" unfolding k2_def by auto
    from t(1) have "grd k2 ?p ?w (e # es) None = Some t" by (rule grd_final)
    moreover have "toolSpan a = upTo (e # es) ?d"
      using Cons by (simp add: toolSpan_def trimStart_def)
    ultimately show ?thesis using t(2) Cons by simp
  qed
  moreover have "m toolPattern False Some \<lparr>prev = bs, rest = ''TOOL:'' @ a, cap = None\<rparr> =
      m (Star (Cls [Space])) False k2 \<lparr>prev = ?p, rest = a, cap = None\<rparr>"
    unfolding toolPattern_def seqs.simps m_Seq m_Lit k2_def k3_def by simp
  ultimately show ?thesis unfolding star by simp
qed

lemma tool_head_fail:
  "\<not> startsWith cs ''TOOL:'' \<Longrightarrow>
   m toolPattern False k \<lparr>prev = bs, rest = cs, cap = c\<rparr> = None"
  unfolding toolPattern_def seqs.simps m_Seq m_Lit by simp

lemma tool_at_end:
  "m toolPattern False Some \<lparr>prev = bs, rest = ''TOOL:'', cap = None\<rparr> = None"
  unfolding toolPattern_def seqs.simps m_Seq m_Lit
  by (simp add: group_empty del: m.simps(9))

lemma scan_tool:
  "afterFirst cs ''TOOL:'' = Some a \<Longrightarrow> a \<noteq> [] \<Longrightarrow>
   \<exists>t. scan toolPattern False bs cs = Some t \<and> cap t = Some (toolSpan a)"
proof (induction cs arbitrary: bs)
  case Nil
  then show ?case by simp
next
  case (Cons c cs)
  show ?case
  proof (cases "startsWith (c # cs) ''TOOL:''")
    case True
    with Cons.prems have "c # cs = ''TOOL:'' @ a"
      by (auto simp: startsWith_iff)
    with tool_at[OF Cons.prems(2), of bs] show ?thesis
      by (auto simp del: m.simps)
  next
    case False
    with Cons.prems have "afterFirst cs ''TOOL:'' = Some a"
      by (simp only: afterFirst.simps if_False)
    from Cons.IH[OF this Cons.prems(2), of "c # bs"] tool_head_fail[OF False, of Some bs None]
    show ?thesis by (simp del: m.simps)
  qed
qed

lemma scan_tool_none:
  "afterFirst cs ''TOOL:'' = None \<or> afterFirst cs ''TOOL:'' = Some [] \<Longrightarrow>
   scan toolPattern False bs cs = None"
proof (induction cs arbitrary: bs)
  case Nil
  show ?case using tool_head_fail[of "[]" Some bs None] by (simp del: m.simps)
next
  case (Cons c cs)
  show ?case
  proof (cases "startsWith (c # cs) ''TOOL:''")
    case True
    with Cons.prems have "drop 5 (c # cs) = []" by simp
    with True have e: "c # cs = ''TOOL:''" by (auto simp: startsWith_iff)
    then have "afterFirst cs ''TOOL:'' = None" by auto
    from Cons.IH[of "c # bs"] this have "scan toolPattern False (c # bs) cs = None" by simp
    with tool_at_end[of bs] e show ?thesis by (simp del: m.simps)
  next
    case False
    with Cons.prems have "afterFirst cs ''TOOL:'' = None \<or> afterFirst cs ''TOOL:'' = Some []"
      by (simp only: afterFirst.simps if_False)
    from Cons.IH[OF this, of "c # bs"] tool_head_fail[OF False, of Some bs None]
    show ?thesis by (simp del: m.simps)
  qed
qed

text \<open>What the tool pattern captures in a text.\<close>

lemma match_tool:
  "match content toolPattern False =
     (case afterFirst content ''TOOL:'' of
        None \<Rightarrow> None
      | Some a \<Rightarrow> if a = [] then None else Some (Some (toolSpan a)))"
proof (cases "afterFirst content ''TOOL:''")
  case None
  then show ?thesis using scan_tool_none[of content "[]"] by (simp add: match_def)
next
  case (Some a)
  show ?thesis
  proof (cases "a = []")
    case True
    with Some show ?thesis using scan_tool_none[of content "[]"] by (simp add: match_def)
  next
    case False
    from scan_tool[OF Some False, of "[]"] Some False show ?thesis
      by (auto simp: match_def)
  qed
qed

lemma trim_Nil: "trim [] = []"
  by (simp add: trim_def trimStart_def trimEnd_def)

lemma trim_space: "isSpace x \<Longrightarrow> trim [x] = []"
  by (simp add: trim_def trimStart_def trimEnd_def)

lemma trim_toolSpan:
  assumes "a \<noteq> []"
  shows "trim (toolSpan a) = trim (upTo (trimStart a) ''\<newline>\<newline>REASONING:'')"
proof (cases "trimStart a = []")
  case False
  then show ?thesis by (simp add: toolSpan_def)
next
  case True
  then have "dropWhile isSpace a = []" by (simp only: trimStart_def)
  then have "\<forall>x\<in>set a. isSpace x" by (simp only: dropWhile_eq_Nil_conv)
  moreover from assms have "last a \<in> set a" by (rule last_in_set)
  ultimately have "isSpace (last a)" by blast
  then have "trim [last a] = []" by (rule trim_space)
  moreover from True have "toolSpan a = [last a]" by (simp only: toolSpan_def simp_thms if_True)
  moreover from True have "upTo (trimStart a) ''\<newline>\<newline>REASONING:'' = []"
    by (simp only: upTo.simps)
  ultimately show ?thesis by (simp only: trim_Nil)
qed

section \<open>The code fence\<close>

text \<open>
  The words of the specification for the fence: a text that starts and ends with a fence (two
  fences, so six characters at least) stands for what is between them, after the name of
  a language if one follows the opening fence at once, without the white space around.
\<close>

definition fenceLang :: "string \<Rightarrow> nat" where
  "fenceLang x =
     (if startsWith x ''html'' then 4
      else if startsWith x ''javascript'' then 10
      else if startsWith x ''css'' then 3
      else if startsWith x ''js'' then 2
      else 0)"

definition unfence :: "string \<Rightarrow> string" where
  "unfence x =
     (if 6 \<le> length x \<and> startsWith x ''```'' \<and> endsWith x ''```''
      then (let y = drop 3 x; l = fenceLang y in trim (take (length y - l - 3) (drop l y)))
      else x)"

lemma grd_None:
  "(\<And>w1 w2. w = w1 @ w2 \<Longrightarrow> k \<lparr>prev = rev w1 @ p, rest = w2 @ x, cap = c\<rparr> = None) \<Longrightarrow>
   grd k p w x c = None"
proof (induction w arbitrary: p)
  case Nil
  from Nil[of "[]" "[]"] show ?case by simp
next
  case (Cons d ds)
  have "grd k (d # p) ds x c = None"
  proof (rule Cons.IH)
    fix w1 w2 assume "ds = w1 @ w2"
    then have "d # ds = (d # w1) @ w2" by simp
    from Cons.prems[OF this]
    show "k \<lparr>prev = rev w1 @ d # p, rest = w2 @ x, cap = c\<rparr> = None" by simp
  qed
  moreover from Cons.prems[of "[]" "d # ds"]
  have "k \<lparr>prev = p, rest = d # ds @ x, cap = c\<rparr> = None" by simp
  ultimately show ?case by simp
qed

lemma m_Seq_cont: "m (Seq a b) ic k = m a ic (m b ic k)"
  by (rule ext) simp

lemma not_space_backtick: "\<not> isSpace CHR ''`''"
  by (simp add: isSpace_code)

text \<open>The text from here on is white space and then the closing fence.\<close>

definition closes :: "string \<Rightarrow> bool" where
  "closes y \<longleftrightarrow> dropWhile isSpace y = ''```''"

definition closesAt :: "cont \<Rightarrow> bool" where
  "closesAt k \<longleftrightarrow>
     (\<forall>p y c. k \<lparr>prev = p, rest = y, cap = c\<rparr> =
        (if closes y then Some \<lparr>prev = rev y @ p, rest = [], cap = c\<rparr> else None))"

lemma fence_tail:
  "m (Lit ''```'') False (m Eol False Some) \<lparr>prev = p, rest = y, cap = c\<rparr> =
     (if y = ''```'' then Some \<lparr>prev = rev ''```'' @ p, rest = [], cap = c\<rparr> else None)"
  unfolding m_Lit by (auto simp: startsWith_iff)

lemma closes_pattern:
  "closesAt (m (Star (Cls [Space])) False (m (Lit ''```'') False (m Eol False Some)))"
  unfolding closesAt_def
proof (intro allI)
  fix p y c
  let ?w = "takeWhile isSpace y" and ?x = "dropWhile isSpace y"
  let ?k = "m (Lit ''```'') False (m Eol False Some)"
  have w: "list_all isSpace ?w" by (simp add: list_all_iff) (meson set_takeWhileD)
  have x: "?x = [] \<or> \<not> isSpace (hd ?x)" by (metis hd_dropWhile)
  have star: "m (Star (Cls [Space])) False ?k \<lparr>prev = p, rest = y, cap = c\<rparr> = grd ?k p ?w ?x c"
    using m_Star_Space[OF w x, of False ?k p c] by simp
  show "m (Star (Cls [Space])) False ?k \<lparr>prev = p, rest = y, cap = c\<rparr> =
        (if closes y then Some \<lparr>prev = rev y @ p, rest = [], cap = c\<rparr> else None)"
  proof (cases "closes y")
    case True
    then have x3: "?x = ''```''" by (simp only: closes_def)
    have "?k \<lparr>prev = rev ?w @ p, rest = ?x, cap = c\<rparr> =
            Some \<lparr>prev = rev ''```'' @ rev ?w @ p, rest = [], cap = c\<rparr>"
      unfolding fence_tail x3 by simp
    then have g: "grd ?k p ?w ?x c = Some \<lparr>prev = rev ''```'' @ rev ?w @ p, rest = [], cap = c\<rparr>"
      by (rule grd_final)
    have "rev y = rev (?w @ ?x)" by (simp only: takeWhile_dropWhile_id)
    also have "\<dots> = rev ?x @ rev ?w" by (rule rev_append)
    finally have "rev y = rev ''```'' @ rev ?w" unfolding x3 .
    then have ry: "rev ''```'' @ rev ?w @ p = rev y @ p" by (simp only: append_assoc)
    show ?thesis unfolding star g ry using True by (simp only: if_True)
  next
    case False
    have "grd ?k p ?w ?x c = None"
    proof (rule grd_None)
      fix w1 w2 assume s: "?w = w1 @ w2"
      show "?k \<lparr>prev = rev w1 @ p, rest = w2 @ ?x, cap = c\<rparr> = None"
      proof (cases w2)
        case Nil
        with False show ?thesis unfolding fence_tail by (simp add: closes_def)
      next
        case (Cons e es)
        with s have "e \<in> set ?w" by simp
        then have "isSpace e" by (meson set_takeWhileD)
        with not_space_backtick have "e \<noteq> CHR ''`''" by auto
        with Cons show ?thesis unfolding fence_tail by simp
      qed
    qed
    with False show ?thesis unfolding star by simp
  qed
qed

lemma closes_iff: "closes (y @ ''```'') \<longleftrightarrow> list_all isSpace y"
  by (induction y) (simp_all add: closes_def not_space_backtick)

lemma trimEnd_Cons:
  "trimEnd (e # es) = (if list_all isSpace (e # es) then [] else e # trimEnd es)"
  by (auto simp: trimEnd_def dropWhile_append list_all_iff)

lemma fwd_fence:
  assumes k: "closesAt k"
  shows "x = u @ y @ ''```'' \<Longrightarrow>
     \<exists>t. fwd (\<lambda>s'. k (s'\<lparr>cap := Some (take (length x - length (rest s')) x)\<rparr>)) p (y @ ''```'') c
           = Some t \<and>
         cap t = Some (u @ trimEnd y)"
proof (induction y arbitrary: p u)
  case Nil
  have "closes ''```''" using closes_iff[of "[]"] by simp
  with Nil show ?case by (simp add: k[unfolded closesAt_def] trimEnd_def)
next
  case (Cons e es)
  show ?case
  proof (cases "list_all isSpace (e # es)")
    case True
    then have "closes (e # es @ ''```'')" using closes_iff[of "e # es"] by simp
    moreover from True have "trimEnd (e # es) = []" by (simp only: trimEnd_Cons if_True)
    ultimately show ?thesis using Cons.prems by (simp add: k[unfolded closesAt_def])
  next
    case False
    then have nc: "\<not> closes (e # es @ ''```'')" using closes_iff[of "e # es"] by simp
    from False have te: "trimEnd (e # es) = e # trimEnd es" by (simp only: trimEnd_Cons if_False)
    from Cons.prems have "x = (u @ [e]) @ es @ ''```''" by simp
    from Cons.IH[OF this, of "e # p"] obtain t where
      "fwd (\<lambda>s'. k (s'\<lparr>cap := Some (take (length x - length (rest s')) x)\<rparr>)) (e # p)
         (es @ ''```'') c = Some t"
      "cap t = Some ((u @ [e]) @ trimEnd es)" by blast
    with nc te show ?thesis by (simp add: k[unfolded closesAt_def])
  qed
qed

lemma m_Grp:
  "m (Grp a) ic k s =
     m a ic (\<lambda>s'. k (s'\<lparr>cap := Some (take (length (rest s) - length (rest s')) (rest s))\<rparr>)) s"
  by simp

lemma hd_append_not:
  "a = [] \<or> \<not> P (hd a) \<Longrightarrow> \<not> P (hd b) \<Longrightarrow> \<not> P (hd (a @ b))"
  by (cases a) auto

lemma fence_group:
  assumes "closesAt k"
  shows "\<exists>t. m (Grp (Lazy AnyChar)) False k \<lparr>prev = p, rest = y @ ''```'', cap = c\<rparr> = Some t \<and>
             cap t = Some (trimEnd y)"
proof -
  have "m (Grp (Lazy AnyChar)) False k \<lparr>prev = p, rest = y @ ''```'', cap = c\<rparr> =
        fwd (\<lambda>s'. k (s'\<lparr>cap := Some (take (length (y @ ''```'') - length (rest s')) (y @ ''```''))\<rparr>))
          p (y @ ''```'') c"
    unfolding m_Grp m_Lazy_AnyChar by simp
  moreover have "y @ ''```'' = [] @ y @ ''```''" by simp
  from fwd_fence[OF assms this, of p c] have
    "\<exists>t. fwd (\<lambda>s'. k (s'\<lparr>cap := Some (take (length (y @ ''```'') - length (rest s')) (y @ ''```''))\<rparr>))
          p (y @ ''```'') c = Some t \<and> cap t = Some (trimEnd y)" by simp
  ultimately show ?thesis by (simp only:)
qed

lemma fence_inner:
  assumes "closesAt k"
  shows "\<exists>t. m (Star (Cls [Space])) False (m (Grp (Lazy AnyChar)) False k)
               \<lparr>prev = p, rest = y @ ''```'', cap = c\<rparr> = Some t \<and>
             cap t = Some (trim y)"
proof -
  let ?w = "takeWhile isSpace y" and ?x = "dropWhile isSpace y"
  let ?kg = "m (Grp (Lazy AnyChar)) False k"
  have w: "list_all isSpace ?w" by (simp add: list_all_iff) (meson set_takeWhileD)
  have "?x = [] \<or> \<not> isSpace (hd ?x)" by (metis hd_dropWhile)
  moreover have "\<not> isSpace (hd ''```'')" by (simp add: not_space_backtick)
  ultimately have "\<not> isSpace (hd (?x @ ''```''))" by (rule hd_append_not)
  then have x: "?x @ ''```'' = [] \<or> \<not> isSpace (hd (?x @ ''```''))" ..
  have y: "y @ ''```'' = ?w @ ?x @ ''```''" by simp
  have star: "m (Star (Cls [Space])) False ?kg \<lparr>prev = p, rest = y @ ''```'', cap = c\<rparr> =
      grd ?kg p ?w (?x @ ''```'') c"
    unfolding y by (rule m_Star_Space[OF w x])
  from fence_group[OF assms, of "rev ?w @ p" ?x c] obtain t where
    t: "?kg \<lparr>prev = rev ?w @ p, rest = ?x @ ''```'', cap = c\<rparr> = Some t"
       "cap t = Some (trimEnd ?x)" by blast
  from t(1) have "grd ?kg p ?w (?x @ ''```'') c = Some t" by (rule grd_final)
  moreover have "trim y = trimEnd ?x" by (simp add: trim_def trimStart_def)
  ultimately show ?thesis using t(2) unfolding star by simp
qed

lemma prefix_suffix_disjoint:
  assumes "startsWith x l" and "x = z @ f" and "set l \<inter> set f = {}"
  shows "\<exists>mid. x = l @ mid @ f"
proof -
  from assms(1) obtain b where b: "x = l @ b" by (auto simp: startsWith_iff)
  with assms(2) have "l @ b = z @ f" by simp
  then obtain us where "l = z @ us \<and> us @ b = f \<or> l @ us = z \<and> b = us @ f"
    by (auto simp: append_eq_append_conv2)
  then show ?thesis
  proof
    assume a: "l = z @ us \<and> us @ b = f"
    have "us = []"
    proof (rule ccontr)
      assume "us \<noteq> []"
      then have "hd us \<in> set us" by simp
      with a have "hd us \<in> set l" "hd us \<in> set f" by auto
      with assms(3) show False by auto
    qed
    with a b have "x = l @ [] @ f" by simp
    then show ?thesis by blast
  next
    assume "l @ us = z \<and> b = us @ f"
    with b show ?thesis by blast
  qed
qed

lemma fence_word:
  assumes K: "\<And>p y c. \<exists>t. K \<lparr>prev = p, rest = y @ ''```'', cap = c\<rparr> = Some t \<and> cap t = Some (trim y)"
    and l: "set l \<inter> set ''```'' = {}"
    and s: "startsWith (z @ ''```'') l"
    and n: "length l = n"
  shows "\<exists>t. m (Lit l) False K \<lparr>prev = p, rest = z @ ''```'', cap = c\<rparr> = Some t \<and>
      cap t = Some (trim (take (length (z @ ''```'') - n - 3) (drop n (z @ ''```''))))"
proof -
  from prefix_suffix_disjoint[OF s refl l] obtain mid where mid: "z @ ''```'' = l @ mid @ ''```''"
    by blast
  from K[of "rev l @ p" mid c] obtain t where
    "K \<lparr>prev = rev l @ p, rest = mid @ ''```'', cap = c\<rparr> = Some t" "cap t = Some (trim mid)"
    by blast
  with s show ?thesis unfolding m_Lit mid n[symmetric] by simp
qed

lemma fence_no_word:
  "\<not> startsWith y l \<Longrightarrow> m (Lit l) False K \<lparr>prev = p, rest = y, cap = c\<rparr> = None"
  unfolding m_Lit by simp

lemma m_Alt:
  "m (Alt a b) ic k s = (case m a ic k s of Some r \<Rightarrow> Some r | None \<Rightarrow> m b ic k s)"
  by simp

lemma m_Eps: "m Eps ic k s = k s"
  by simp

lemma fence_lang:
  assumes K: "\<And>p y c. \<exists>t. K \<lparr>prev = p, rest = y @ ''```'', cap = c\<rparr> = Some t \<and> cap t = Some (trim y)"
  shows "\<exists>t. m (Opt (words [''html'', ''javascript'', ''css'', ''js''])) False K
               \<lparr>prev = p, rest = z @ ''```'', cap = c\<rparr> = Some t \<and>
      cap t = Some (trim (take (length (z @ ''```'') - fenceLang (z @ ''```'') - 3)
                      (drop (fenceLang (z @ ''```'')) (z @ ''```''))))"
proof -
  let ?s = "\<lparr>prev = p, rest = z @ ''```'', cap = c\<rparr>"
  let ?x = "z @ ''```''"
  have e: "m (Opt (words [''html'', ''javascript'', ''css'', ''js''])) False K ?s =
    (case (case m (Lit ''html'') False K ?s of Some r \<Rightarrow> Some r
           | None \<Rightarrow> (case m (Lit ''javascript'') False K ?s of Some r \<Rightarrow> Some r
           | None \<Rightarrow> (case m (Lit ''css'') False K ?s of Some r \<Rightarrow> Some r
           | None \<Rightarrow> m (Lit ''js'') False K ?s))) of Some r \<Rightarrow> Some r | None \<Rightarrow> K ?s)"
    unfolding Opt_def words_def list.map alts.simps m_Alt m_Eps ..
  show ?thesis
  proof (cases "startsWith ?x ''html''")
    case True
    have h: "set ''html'' \<inter> set ''```'' = {}" "length ''html'' = 4" by simp_all
    from fence_word[OF K h(1) True h(2), of p c] obtain t where
      "m (Lit ''html'') False K ?s = Some t"
      "cap t = Some (trim (take (length ?x - 4 - 3) (drop 4 ?x)))"
      by auto
    with True show ?thesis unfolding e by (simp add: fenceLang_def del: m.simps)
  next
    case n1: False
    note f1 = fence_no_word[OF n1, of K p c]
    show ?thesis
    proof (cases "startsWith ?x ''javascript''")
      case True
      have h: "set ''javascript'' \<inter> set ''```'' = {}" "length ''javascript'' = 10" by simp_all
      from fence_word[OF K h(1) True h(2), of p c] obtain t where
        "m (Lit ''javascript'') False K ?s = Some t"
        "cap t = Some (trim (take (length ?x - 10 - 3) (drop 10 ?x)))"
        by auto
      with True n1 f1 show ?thesis unfolding e by (simp add: fenceLang_def del: m.simps)
    next
      case n2: False
      note f2 = fence_no_word[OF n2, of K p c]
      show ?thesis
      proof (cases "startsWith ?x ''css''")
        case True
        have h: "set ''css'' \<inter> set ''```'' = {}" "length ''css'' = 3" by simp_all
        from fence_word[OF K h(1) True h(2), of p c] obtain t where
          "m (Lit ''css'') False K ?s = Some t"
          "cap t = Some (trim (take (length ?x - 3 - 3) (drop 3 ?x)))"
          by auto
        with True n1 n2 f1 f2 show ?thesis unfolding e by (simp add: fenceLang_def del: m.simps)
      next
        case n3: False
        note f3 = fence_no_word[OF n3, of K p c]
        show ?thesis
        proof (cases "startsWith ?x ''js''")
          case True
          have h: "set ''js'' \<inter> set ''```'' = {}" "length ''js'' = 2" by simp_all
          from fence_word[OF K h(1) True h(2), of p c] obtain t where
            "m (Lit ''js'') False K ?s = Some t"
            "cap t = Some (trim (take (length ?x - 2 - 3) (drop 2 ?x)))"
            by auto
          with True n1 n2 n3 f1 f2 f3 show ?thesis
            unfolding e by (simp add: fenceLang_def del: m.simps)
        next
          case n4: False
          note f4 = fence_no_word[OF n4, of K p c]
          from K[of p z c] obtain t where "K ?s = Some t" "cap t = Some (trim z)" by blast
          with n1 n2 n3 n4 f1 f2 f3 f4 show ?thesis
            unfolding e by (simp add: fenceLang_def del: m.simps)
        qed
      qed
    qed
  qed
qed

lemma endsWith_iff: "endsWith s p \<longleftrightarrow> (\<exists>a. s = a @ p)"
proof
  assume "endsWith s p"
  then obtain b where "rev s = rev p @ b" unfolding endsWith_def startsWith_iff by blast
  then have "rev (rev s) = rev (rev p @ b)" by (rule arg_cong)
  then have "s = rev b @ p" by simp
  then show "\<exists>a. s = a @ p" by blast
next
  assume "\<exists>a. s = a @ p"
  then obtain a where "s = a @ p" by blast
  then have "rev s = rev p @ rev a" by simp
  then show "endsWith s p" unfolding endsWith_def startsWith_iff by blast
qed

lemma fenced_iff:
  "6 \<le> length x \<and> startsWith x ''```'' \<and> endsWith x ''```'' \<longleftrightarrow> (\<exists>z. x = ''```'' @ z @ ''```'')"
proof
  assume a: "6 \<le> length x \<and> startsWith x ''```'' \<and> endsWith x ''```''"
  then obtain b where b: "x = ''```'' @ b" by (auto simp: startsWith_iff)
  from a obtain a' where x: "x = a' @ ''```''" unfolding endsWith_iff by blast
  with b have "''```'' @ b = a' @ ''```''" by simp
  then obtain us where "''```'' = a' @ us \<and> us @ b = ''```'' \<or> ''```'' @ us = a' \<and> b = us @ ''```''"
    unfolding append_eq_append_conv2 by blast
  then show "\<exists>z. x = ''```'' @ z @ ''```''"
  proof
    assume u: "''```'' = a' @ us \<and> us @ b = ''```''"
    from a b have "3 \<le> length b" by simp
    moreover from u have "length us + length b = 3" by (metis length_append length_Cons list.size(3) numeral_3_eq_3)
    ultimately have "length us = 0" by arith
    then have "us = []" by simp
    with u b have "x = ''```'' @ [] @ ''```''" by simp
    then show ?thesis by blast
  next
    assume "''```'' @ us = a' \<and> b = us @ ''```''"
    with b show ?thesis by blast
  qed
next
  assume "\<exists>z. x = ''```'' @ z @ ''```''"
  then obtain z where z: "x = ''```'' @ z @ ''```''" by blast
  then have "x = (''```'' @ z) @ ''```''" by simp
  then have "endsWith x ''```''" unfolding endsWith_iff by blast
  moreover from z have "startsWith x ''```''" unfolding startsWith_iff by blast
  moreover from z have "6 \<le> length x" by simp
  ultimately show "6 \<le> length x \<and> startsWith x ''```'' \<and> endsWith x ''```''" by blast
qed

lemma fence_at_start:
  "m codeFence False Some \<lparr>prev = [], rest = ''```'' @ y, cap = None\<rparr> =
     m (Opt (words [''html'', ''javascript'', ''css'', ''js''])) False
       (m (Star (Cls [Space])) False (m (Grp (Lazy AnyChar)) False
         (m (Star (Cls [Space])) False (m (Lit ''```'') False (m Eol False Some)))))
       \<lparr>prev = rev ''```'', rest = y, cap = None\<rparr>"
  unfolding codeFence_def seqs.simps m_Seq_cont m_Lit by simp

lemma fence_match:
  "match (''```'' @ z @ ''```'') codeFence False =
     Some (Some (trim (take (length (z @ ''```'') - fenceLang (z @ ''```'') - 3)
                      (drop (fenceLang (z @ ''```'')) (z @ ''```'')))))"
proof -
  let ?K = "m (Star (Cls [Space])) False (m (Grp (Lazy AnyChar)) False
         (m (Star (Cls [Space])) False (m (Lit ''```'') False (m Eol False Some))))"
  have K: "\<And>p y c. \<exists>t. ?K \<lparr>prev = p, rest = y @ ''```'', cap = c\<rparr> = Some t \<and> cap t = Some (trim y)"
    by (rule fence_inner[OF closes_pattern])
  from fence_lang[of ?K, OF K, of "rev ''```''" z None] obtain t where
    t: "m (Opt (words [''html'', ''javascript'', ''css'', ''js''])) False ?K
         \<lparr>prev = rev ''```'', rest = z @ ''```'', cap = None\<rparr> = Some t"
       "cap t = Some (trim (take (length (z @ ''```'') - fenceLang (z @ ''```'') - 3)
                      (drop (fenceLang (z @ ''```'')) (z @ ''```''))))" by blast
  from t(1) have "m codeFence False Some \<lparr>prev = [], rest = ''```'' @ z @ ''```'', cap = None\<rparr> = Some t"
    unfolding fence_at_start .
  then have "scan codeFence False [] (''```'' @ z @ ''```'') = Some t"
    by (simp del: m.simps)
  with t(2) show ?thesis by (simp add: match_def del: m.simps)
qed

lemma fence_only:
  assumes "scan codeFence False [] x = Some t"
  shows "\<exists>z. x = ''```'' @ z @ ''```''"
proof -
  let ?K4 = "m (Lit ''```'') False (m Eol False Some)"
  let ?K3 = "m (Star (Cls [Space])) False ?K4"
  let ?K2 = "m (Grp (Lazy AnyChar)) False ?K3"
  let ?K1 = "m (Star (Cls [Space])) False ?K2"
  let ?O = "Opt (words [''html'', ''javascript'', ''css'', ''js''])"
  from scan_reach[OF assms] obtain bs' cs' where
    w: "rev bs' @ cs' = x" and
    mt: "m codeFence False Some \<lparr>prev = bs', rest = cs', cap = None\<rparr> = Some t" by auto
  have u: "m codeFence False Some \<lparr>prev = bs', rest = cs', cap = None\<rparr> =
     (if bs' = [] then
        if startsWith cs' ''```''
        then m ?O False ?K1
               \<lparr>prev = rev ''```'' @ bs', rest = drop (length ''```'') cs', cap = None\<rparr>
        else None
      else None)"
    unfolding codeFence_def seqs.simps m_Seq_cont m_Lit by simp
  from mt have b: "bs' = []" and s: "startsWith cs' ''```''"
    and o: "m ?O False ?K1
              \<lparr>prev = rev ''```'' @ bs', rest = drop (length ''```'') cs', cap = None\<rparr> = Some t"
    unfolding u by (auto split: if_splits)
  let ?s1 = "\<lparr>prev = rev ''```'' @ bs', rest = drop (length ''```'') cs', cap = None\<rparr>"
  from m_reach[OF o] obtain s2 where r2: "reach ?s1 s2" and k1: "?K1 s2 = Some t" by blast
  from m_reach[OF k1] obtain s3 where r3: "reach s2 s3" and k2: "?K2 s3 = Some t" by blast
  from m_reach[OF k2] obtain s4 where r4: "reach s3 s4" and k3: "?K3 s4 = Some t" by blast
  from m_reach[OF k3] obtain s5 where r5: "reach s4 s5" and k4: "?K4 s5 = Some t" by blast
  obtain p5 y5 c5 where s5: "s5 = \<lparr>prev = p5, rest = y5, cap = c5\<rparr>" by (cases s5) auto
  from k4 have "rest s5 = ''```''"
    unfolding s5 fence_tail by (simp split: if_splits)
  moreover have "reach ?s1 s5" using r2 r3 r4 r5 by (blast intro: reach_trans)
  ultimately have "suffix ''```'' (drop (length ''```'') cs')" by (simp add: reach_def)
  then obtain z where "drop (length ''```'') cs' = z @ ''```''" by (auto simp: suffix_def)
  moreover from s obtain b' where "cs' = ''```'' @ b'" by (auto simp: startsWith_iff)
  ultimately have "cs' = ''```'' @ z @ ''```''" by simp
  with w b show ?thesis by auto
qed

lemma trim_idem: "trim (trim s) = trim s"
proof -
  let ?a = "trimStart s"
  have a: "?a = [] \<or> \<not> isSpace (hd ?a)" unfolding trimStart_def by (metis hd_dropWhile)
  have "trimStart (trimEnd ?a) = trimEnd ?a"
  proof (cases ?a)
    case Nil
    show ?thesis unfolding Nil by (simp add: trimEnd_def trimStart_def)
  next
    case (Cons e es)
    with a have ne: "\<not> isSpace e" by simp
    then have "trimEnd (e # es) = e # trimEnd es" by (simp add: trimEnd_Cons)
    with ne Cons show ?thesis by (simp add: trimStart_def)
  qed
  moreover have "trimEnd (trimEnd ?a) = trimEnd ?a" by (simp add: trimEnd_def)
  ultimately show ?thesis by (simp add: trim_def)
qed

text \<open>The fence the code strips is the fence of the words above.\<close>

lemma stripCodeFence_unfence: "stripCodeFence x = Some (unfence x)"
proof (cases "6 \<le> length x \<and> startsWith x ''```'' \<and> endsWith x ''```''")
  case True
  then obtain z where z: "x = ''```'' @ z @ ''```''" unfolding fenced_iff by blast
  have "drop 3 x = z @ ''```''" unfolding z by simp
  with True show ?thesis
    unfolding stripCodeFence_def unfence_def z fence_match
    by (simp add: trim_idem Let_def)
next
  case False
  have "scan codeFence False [] x = None"
  proof (rule ccontr)
    assume "scan codeFence False [] x \<noteq> None"
    then obtain t where "scan codeFence False [] x = Some t" by auto
    from fence_only[OF this] False show False unfolding fenced_iff by blast
  qed
  moreover from False have "unfence x = x" by (simp only: unfence_def if_False)
  ultimately show ?thesis by (simp add: stripCodeFence_def match_def)
qed

section \<open>The legacy strategy\<close>

text \<open>A property of the artifact of the response, \<open>undefined\<close> when there is none.\<close>

definition artifactProp :: "ParseResult \<Rightarrow> string \<Rightarrow> jsvalue" where
  "artifactProp result name =
     (case getProp (responseProp result ''artifact'') name of
        None \<Rightarrow> JUndefined
      | Some v \<Rightarrow> v)"

lemma parseLegacyFormat_success:
  assumes "success (parseLegacyFormat x agent)"
  shows "includesStr x ''TITLE:'' \<and> includesStr x ''TOOL:'' \<and>
         (\<exists>g tc. match x toolPattern False = Some (Some g) \<and>
                 stripCodeFence (trim g) = Some tc \<and>
                 artifactProp (parseLegacyFormat x agent) ''content'' = JStr tc) \<and>
         responseProp (parseLegacyFormat x agent) ''confidence'' = JNum (7 / 10)"
  using assms
  by (auto simp: parseLegacyFormat_def Let_def success_failure responseProp_def artifactProp_def
      response_succeed split: if_splits option.splits)

text \<open>
  C5 (as amended). The legacy strategy succeeds only on a text that contains both
  \<open>TITLE:\<close> and \<open>TOOL:\<close>. The content of the artifact is then taken from the text
  \<open>a\<close> after the first \<open>TOOL:\<close>: the white space at its start is skipped, the span runs
  up to (not including) the first blank line followed by \<open>REASONING:\<close>, that is the
  characters \<open>\n\nREASONING:\<close>, or to the end of the text when there is none, it is
  trimmed, and a fence that wraps it is stripped. The confidence is 0.7.
\<close>

theorem parseLegacyFormat_content:
  assumes "success (parseLegacyFormat content agent)"
  shows "includesStr content ''TITLE:'' \<and> includesStr content ''TOOL:'' \<and>
         (\<exists>a. afterFirst content ''TOOL:'' = Some a \<and>
              artifactProp (parseLegacyFormat content agent) ''content'' =
                JStr (unfence (trim (upTo (trimStart a) ''\<newline>\<newline>REASONING:'')))) \<and>
         responseProp (parseLegacyFormat content agent) ''confidence'' = JNum (7 / 10)"
proof -
  from parseLegacyFormat_success[OF assms] obtain g tc where
    i: "includesStr content ''TITLE:''" "includesStr content ''TOOL:''" and
    g: "match content toolPattern False = Some (Some g)" and
    s: "stripCodeFence (trim g) = Some tc" and
    c: "artifactProp (parseLegacyFormat content agent) ''content'' = JStr tc" and
    f: "responseProp (parseLegacyFormat content agent) ''confidence'' = JNum (7 / 10)"
    by blast
  from g obtain a where a: "afterFirst content ''TOOL:'' = Some a" "a \<noteq> []" "g = toolSpan a"
    unfolding match_tool by (auto split: option.splits if_splits)
  from s have "tc = unfence (trim g)" unfolding stripCodeFence_unfence by simp
  with a(3) have "tc = unfence (trim (upTo (trimStart a) ''\<newline>\<newline>REASONING:''))"
    by (simp only: trim_toolSpan[OF a(2)])
  with c a(1) have "\<exists>a. afterFirst content ''TOOL:'' = Some a \<and>
      artifactProp (parseLegacyFormat content agent) ''content'' =
        JStr (unfence (trim (upTo (trimStart a) ''\<newline>\<newline>REASONING:'')))"
    by blast
  with i f show ?thesis by blast
qed

theorem parseLegacyFormat_content_witness:
  "success (parseLegacyFormat
     ''TITLE: Tip Calculator\<newline>TOOL:\<newline>```html\<newline><html>...</html>\<newline>```\<newline>\<newline>REASONING: simple''
     ''noah'') \<and>
   artifactProp (parseLegacyFormat
     ''TITLE: Tip Calculator\<newline>TOOL:\<newline>```html\<newline><html>...</html>\<newline>```\<newline>\<newline>REASONING: simple''
     ''noah'') ''content'' = JStr ''<html>...</html>'' \<and>
   (\<exists>a. afterFirst
      ''TITLE: Tip Calculator\<newline>TOOL:\<newline>```html\<newline><html>...</html>\<newline>```\<newline>\<newline>REASONING: simple''
      ''TOOL:'' = Some a \<and>
     artifactProp (parseLegacyFormat
       ''TITLE: Tip Calculator\<newline>TOOL:\<newline>```html\<newline><html>...</html>\<newline>```\<newline>\<newline>REASONING: simple''
       ''noah'') ''content'' =
       JStr (unfence (trim (upTo (trimStart a) ''\<newline>\<newline>REASONING:'')))) \<and>
   responseProp (parseLegacyFormat
     ''TITLE: Tip Calculator\<newline>TOOL:\<newline>```html\<newline><html>...</html>\<newline>```\<newline>\<newline>REASONING: simple''
     ''noah'') ''confidence'' = JNum (7 / 10)"
proof -
  let ?c = "''TITLE: Tip Calculator\<newline>TOOL:\<newline>```html\<newline><html>...</html>\<newline>```\<newline>\<newline>REASONING: simple''"
  have h: "success (parseLegacyFormat ?c ''noah'')"
    by code_simp
  have v: "artifactProp (parseLegacyFormat ?c ''noah'') ''content'' = JStr ''<html>...</html>''"
    by code_simp
  from parseLegacyFormat_content[OF h] h v show ?thesis by blast
qed

text \<open>
  The span does not stop at a \<open>REASONING:\<close> marker that no blank line precedes: here the
  text up to the marker is \<open> abc \<close>, and the content of the artifact has the marker and
  what follows it.
\<close>

theorem parseLegacyFormat_reasoning_counterexample:
  "success (parseLegacyFormat ''TITLE: T\<newline>TOOL: abc REASONING: why'' ''noah'') \<and>
   afterFirst ''TITLE: T\<newline>TOOL: abc REASONING: why'' ''TOOL:'' = Some '' abc REASONING: why'' \<and>
   upTo '' abc REASONING: why'' ''REASONING:'' = '' abc '' \<and>
   artifactProp (parseLegacyFormat ''TITLE: T\<newline>TOOL: abc REASONING: why'' ''noah'') ''content''
     = JStr ''abc REASONING: why''"
  by code_simp

end
